theory Spec2Isabelle
  imports Main "HOL-Library.Sublist" "HOL-Library.Signed_Division"
begin

section \<open>ct-to-slack: the S3 event handler\<close>

text \<open>
  The program is one Go function, \<open>Handler\<close> (ct_to_slack.go), run once per S3 event.
  It resolves a Slack webhook address, then walks the records of the event: a record
  whose key is under the prefix is fetched from S3, decoded as a CT leaf entry, turned
  into a certificate, rendered, and posted to Slack.

  The embedding keeps the function's shape. Two records hold what \<open>Handler\<close> calls but
  does not define: \<open>libs\<close>, the pure library functions (JSON decoding, the
  certificate-transparency and X.509 parsers, the certificate printer), and \<open>world\<close>,
  the calls with an effect outside the process (AWS configuration, the parameter store,
  S3, Slack). What the handler does to the outside is recorded as a list of events, in
  order; a call into the world is answered from the events so far, so that the world may
  answer the same request differently at different moments.
\<close>

subsection \<open>Standard-library functions used by the handler\<close>

type_synonym bytes = "char list"

definition HasPrefix :: "string \<Rightarrow> string \<Rightarrow> bool" where
  \<comment> \<open>strings.HasPrefix: \<open>len(s) >= len(prefix) && s[:len(prefix)] == prefix\<close>\<close>
  "HasPrefix s p = (length p \<le> length s \<and> take (length p) s = p)"

fun joinRest :: "string list \<Rightarrow> string \<Rightarrow> string" where
  \<comment> \<open>the loop of strings.Join over \<open>elems[1:]\<close>: separator, then element\<close>
  "joinRest [] sep = []"
| "joinRest (s # ss) sep = sep @ s @ joinRest ss sep"

fun Join :: "string list \<Rightarrow> string \<Rightarrow> string" where
  \<comment> \<open>strings.Join: no element gives the empty string, one element gives itself\<close>
  "Join [] sep = []"
| "Join [e] sep = e"
| "Join (e # es) sep = e @ joinRest es sep"

definition byte :: "char \<Rightarrow> nat" where
  "byte c = of_char c"

definition ishex :: "char \<Rightarrow> bool" where
  \<comment> \<open>net/url ishex\<close>
  "ishex c =
     (if byte CHR ''0'' \<le> byte c \<and> byte c \<le> byte CHR ''9'' then True
      else if byte CHR ''a'' \<le> byte c \<and> byte c \<le> byte CHR ''f'' then True
      else if byte CHR ''A'' \<le> byte c \<and> byte c \<le> byte CHR ''F'' then True
      else False)"

definition unhex :: "char \<Rightarrow> nat" where
  \<comment> \<open>net/url unhex; only called on characters that passed \<open>ishex\<close>\<close>
  "unhex c =
     (if byte CHR ''0'' \<le> byte c \<and> byte c \<le> byte CHR ''9'' then byte c - byte CHR ''0''
      else if byte CHR ''a'' \<le> byte c \<and> byte c \<le> byte CHR ''f'' then byte c - byte CHR ''a'' + 10
      else if byte CHR ''A'' \<le> byte c \<and> byte c \<le> byte CHR ''F'' then byte c - byte CHR ''A'' + 10
      else 0)"

fun PathUnescape :: "string \<Rightarrow> string + string" where
  \<comment> \<open>url.PathUnescape: every \<open>%\<close> must be followed by two hexadecimal digits and
      stands for that byte; \<open>+\<close> and all other bytes are kept. The error carries the
      offending text, at most three bytes from the \<open>%\<close> on (url.EscapeError).\<close>
  "PathUnescape [] = Inr []"
| "PathUnescape (c # s) =
     (if c = CHR ''%'' then
        (case s of
           h1 # h2 # rest \<Rightarrow>
             if ishex h1 \<and> ishex h2 then
               (case PathUnescape rest of
                  Inl err \<Rightarrow> Inl err
                | Inr t \<Rightarrow> Inr (char_of (unhex h1 * 16 + unhex h2) # t))
             else Inl (take 3 (c # s))
         | _ \<Rightarrow> Inl (take 3 (c # s)))
      else
        (case PathUnescape s of
           Inl err \<Rightarrow> Inl err
         | Inr t \<Rightarrow> Inr (c # t)))"

text \<open>
  A \<open>time.Time\<close> is kept as what \<open>Format\<close> reads from it: the calendar date and clock
  time in the value's own location, and that location's offset east of UTC in seconds.
\<close>

record Time =
  tYear :: int
  tMonth :: int
  tDay :: int
  tHour :: int
  tMinute :: int
  tSecond :: int
  tOffset :: int

fun decimal :: "nat \<Rightarrow> string" where
  "decimal n =
     (if n < 10 then [char_of (byte CHR ''0'' + n)]
      else decimal (n div 10) @ [char_of (byte CHR ''0'' + n mod 10)])"

declare decimal.simps [simp del]

definition appendInt :: "string \<Rightarrow> int \<Rightarrow> nat \<Rightarrow> string" where
  \<comment> \<open>time.appendInt: a minus sign for a negative number, then the decimal digits,
      padded with zeros on the left up to \<open>width\<close>\<close>
  "appendInt b x width =
     (let ds = decimal (nat \<bar>x\<bar>)
      in b @ (if x < 0 then ''-'' else []) @ replicate (width - length ds) CHR ''0'' @ ds)"

definition appendZone :: "string \<Rightarrow> int \<Rightarrow> string" where
  \<comment> \<open>the zone part of RFC 3339: \<open>Z\<close> for offset 0, else sign, hours, colon, minutes\<close>
  "appendZone b offset =
     (if offset = 0 then b @ ''Z''
      else
        (let zone = offset sdiv 60;
             b1 = (if zone < 0 then b @ ''-'' else b @ ''+'');
             z = \<bar>zone\<bar>
         in appendInt (appendInt b1 (z div 60) 2 @ '':'') (z mod 60) 2))"

definition FormatRFC3339 :: "Time \<Rightarrow> string" where
  \<comment> \<open>\<open>t.Format(time.RFC3339)\<close>, layout \<open>2006-01-02T15:04:05Z07:00\<close>\<close>
  "FormatRFC3339 t =
     appendZone
       (appendInt (appendInt (appendInt (appendInt (appendInt (appendInt [] (tYear t) 4 @ ''-'')
          (tMonth t) 2 @ ''-'') (tDay t) 2 @ ''T'') (tHour t) 2 @ '':'') (tMinute t) 2 @ '':'')
          (tSecond t) 2)
       (tOffset t)"

subsection \<open>Data\<close>

text \<open>The part of \<open>events.S3Event\<close> that the handler reads.\<close>

record S3EventRecord =
  bucketName :: string   \<comment> \<open>\<open>rec.S3.Bucket.Name\<close>\<close>
  objectKey :: string    \<comment> \<open>\<open>rec.S3.Object.Key\<close>\<close>

record S3Event =
  Records :: "S3EventRecord list"

text \<open>
  \<open>ct.LeafEntry\<close>, the certificate of certificate-transparency-go inside a
  \<open>ct.LogEntry\<close> (of which only \<open>Raw\<close> is read) and the fields of
  \<open>crypto/x509.Certificate\<close> that the message shows. \<open>X509Cert\<close> is a pointer in
  Go: \<open>None\<close> is nil.
\<close>

record LeafEntry =
  LeafInput :: bytes
  ExtraData :: bytes

record CTCertificate =
  Raw :: bytes

record LogEntry =
  X509Cert :: "CTCertificate option"

record Certificate =
  DNSNames :: "string list"
  NotBefore :: Time
  NotAfter :: Time

text \<open>
  An error returned by the handler, tagged with the call that produced it; the string is
  the message of the Go error value. The handler passes the error values on unchanged, so
  the tag only records where a value comes from.
\<close>

datatype error =
    ErrLoadDefaultConfig string
  | ErrKvGet string
  | ErrPathUnescape string
  | ErrGetObject string
  | ErrDecode string
  | ErrLogEntryFromLeaf string
  | ErrParseCertificate string
  | ErrCertificateText string
  | ErrPostWebhook string

datatype level = LevelInfo | LevelError

datatype event =
    Log level string "(string \<times> string) list"   \<comment> \<open>\<open>lgr.Info\<close> / \<open>lgr.Error\<close>: message, attributes\<close>
  | GetObject string string                        \<comment> \<open>\<open>s3client.GetObject\<close>: bucket, key\<close>
  | PostWebhook string string                      \<comment> \<open>\<open>slack.PostWebhook\<close>: address, text\<close>

text \<open>
  The library functions, each returning either an error message or a value.
  \<open>ct.LogEntryFromLeaf\<close> may return an entry together with an error; the handler
  returns as soon as the error is not nil, so only the error is kept in that case.
\<close>

record libs =
  jsonDecode :: "bytes \<Rightarrow> string + LeafEntry"
  logEntryFromLeaf :: "int \<Rightarrow> LeafEntry \<Rightarrow> string + LogEntry"
  parseCertificate :: "bytes \<Rightarrow> string + Certificate"
  certificateText :: "Certificate \<Rightarrow> string + string"

text \<open>
  The outside world. \<open>kvGet\<close> returns both results of Go's \<open>kv.Get\<close>, the value and
  the error. \<open>getObject\<close> and \<open>postWebhook\<close> take the events so far as their first
  argument.
\<close>

record world =
  loadDefaultConfig :: "string option"
  kvGet :: "string \<Rightarrow> string \<times> string option"
  getObject :: "event list \<Rightarrow> string \<Rightarrow> string \<Rightarrow> string + bytes"
  postWebhook :: "event list \<Rightarrow> string \<Rightarrow> string \<Rightarrow> string option"

subsection \<open>The handler\<close>

definition prefix' :: string where
  "prefix' = ''certs/''"

definition messageText :: "string \<Rightarrow> Certificate \<Rightarrow> string \<Rightarrow> string" where
  \<comment> \<open>lines 105 to 117: \<open>strings.Join\<close> and \<open>fmt.Sprintf\<close> with five \<open>%s\<close> verbs\<close>
  "messageText key cert certInfoTxt =
     (let dnsNames = Join (DNSNames cert) '', ''
      in ''*New Certificate Detected*'' @ [CHR 0x0A, CHR 0x0A] @
         ''*Key:* '' @ key @ [CHR 0x0A] @
         ''*DNS Names:* '' @ dnsNames @ [CHR 0x0A] @
         ''*Not Before:* '' @ FormatRFC3339 (NotBefore cert) @ [CHR 0x0A] @
         ''*Not After:* '' @ FormatRFC3339 (NotAfter cert) @ [CHR 0x0A, CHR 0x0A] @
         ''*Certificate Details:*'' @ [CHR 0x0A] @ ''```'' @ certInfoTxt @ ''```'')"

datatype control = Continue | Return "error option"

definition processRecord ::
  "libs \<Rightarrow> world \<Rightarrow> string \<Rightarrow> event list \<Rightarrow> S3EventRecord \<Rightarrow> control \<times> event list" where
  \<comment> \<open>the body of the loop, lines 53 to 124: \<open>Continue\<close> goes on to the next record,
      \<open>Return\<close> leaves the handler\<close>
  "processRecord L w webhookURL tr rec =
     (if \<not> HasPrefix (objectKey rec) prefix' then
        (Continue, tr @ [Log LevelInfo ''skipping_file_outside_prefix''
                           [(''key'', objectKey rec), (''prefix'', prefix')]])
      else
      (case PathUnescape (objectKey rec) of
        Inl err \<Rightarrow> (Return (Some (ErrPathUnescape err)), tr)
      | Inr key \<Rightarrow>
      (let tr1 = tr @ [GetObject (bucketName rec) key] in
      (case getObject w tr (bucketName rec) key of
        Inl err \<Rightarrow>
          (Return (Some (ErrGetObject err)),
           tr1 @ [Log LevelError ''get obj err'' [(''key'', key), (''err'', err)]])
      | Inr body \<Rightarrow>
      (case jsonDecode L body of
        Inl err \<Rightarrow>
          (Return (Some (ErrDecode err)),
           tr1 @ [Log LevelError ''decode json err'' [(''key'', key), (''err'', err)]])
      | Inr rawEntry \<Rightarrow>
      (case logEntryFromLeaf L 0 rawEntry of
        Inl err \<Rightarrow>
          (Return (Some (ErrLogEntryFromLeaf err)),
           tr1 @ [Log LevelError ''load log entry leaf err'' [(''key'', key), (''err'', err)]])
      | Inr logEntry \<Rightarrow>
      (case X509Cert logEntry of
        None \<Rightarrow>
          (Return None,
           tr1 @ [Log LevelError ''expected x509 cert but got none'' [(''key'', key)]])
      | Some x509Cert \<Rightarrow>
      (case parseCertificate L (Raw x509Cert) of
        Inl err \<Rightarrow>
          (Return (Some (ErrParseCertificate err)),
           tr1 @ [Log LevelError ''x509 parse err'' [(''key'', key), (''err'', err)]])
      | Inr cert \<Rightarrow>
      (case certificateText L cert of
        Inl err \<Rightarrow>
          (Return (Some (ErrCertificateText err)),
           tr1 @ [Log LevelError ''cert txt err'' [(''key'', key), (''err'', err)]])
      | Inr certInfoTxt \<Rightarrow>
      (let text = messageText key cert certInfoTxt;
           tr2 = tr1 @ [PostWebhook webhookURL text] in
      (case postWebhook w tr1 webhookURL text of
        Some err \<Rightarrow> (Continue, tr2 @ [Log LevelError ''slack_webhook_err'' [(''err'', err)]])
      | None \<Rightarrow> (Continue, tr2))))))))))))"

fun forRecords ::
  "libs \<Rightarrow> world \<Rightarrow> string \<Rightarrow> event list \<Rightarrow> S3EventRecord list \<Rightarrow> control \<times> event list" where
  \<comment> \<open>the loop of line 52; \<open>Continue\<close> as the result: the loop ran to its end\<close>
  "forRecords L w webhookURL tr [] = (Continue, tr)"
| "forRecords L w webhookURL tr (rec # recs) =
     (case processRecord L w webhookURL tr rec of
        (Continue, tr') \<Rightarrow> forRecords L w webhookURL tr' recs
      | (Return err, tr') \<Rightarrow> (Return err, tr'))"

definition getWebhookURL :: "world \<Rightarrow> string \<times> event list" where
  \<comment> \<open>lines 47 to 50: the address is used whatever the error; the error is only logged\<close>
  "getWebhookURL w =
     (case kvGet w ''webhook_url'' of
        (webhookURL, Some err) \<Rightarrow>
          (webhookURL, [Log LevelError ''get_webhook_url_err'' [(''err'', err)]])
      | (webhookURL, None) \<Rightarrow> (webhookURL, []))"

fun returned :: "control \<times> event list \<Rightarrow> error option \<times> event list" where
  \<comment> \<open>line 127: after the loop the handler returns nil\<close>
  "returned (Continue, tr) = (None, tr)"
| "returned (Return err, tr) = (err, tr)"

definition Handler :: "libs \<Rightarrow> world \<Rightarrow> S3Event \<Rightarrow> error option \<times> event list" where
  \<comment> \<open>the error returned (\<open>None\<close> is nil) and everything done to the outside\<close>
  "Handler L w evt =
     (case loadDefaultConfig w of
        Some err \<Rightarrow> (Some (ErrLoadDefaultConfig err), [])
      | None \<Rightarrow>
          (case getWebhookURL w of
             (webhookURL, tr) \<Rightarrow> returned (forRecords L w webhookURL tr (Records evt))))"

subsection \<open>Reading a list of events\<close>

fun posts :: "event list \<Rightarrow> (string \<times> string) list" where
  \<comment> \<open>the notifications handed to the transport: address and text, in order\<close>
  "posts [] = []"
| "posts (PostWebhook url text # tr) = (url, text) # posts tr"
| "posts (e # tr) = posts tr"


subsection \<open>What the specification calls a comma-space join and an RFC 3339 timestamp\<close>

fun commaSpaceJoin :: "string list \<Rightarrow> string" where
  \<comment> \<open>the entries in their order, a comma and a space between two neighbours\<close>
  "commaSpaceJoin [] = []"
| "commaSpaceJoin [n] = n"
| "commaSpaceJoin (n # m # ns) = n @ '', '' @ commaSpaceJoin (m # ns)"

definition isDigit :: "char \<Rightarrow> bool" where
  "isDigit c = (byte CHR ''0'' \<le> byte c \<and> byte c \<le> byte CHR ''9'')"

fun matches :: "string \<Rightarrow> string \<Rightarrow> bool" where
  \<comment> \<open>\<open>d\<close> in the pattern stands for one decimal digit, every other character for itself\<close>
  "matches [] [] = True"
| "matches (p # ps) (c # cs) = ((if p = CHR ''d'' then isDigit c else c = p) \<and> matches ps cs)"
| "matches ps cs = False"

definition isRFC3339 :: "string \<Rightarrow> bool" where
  \<comment> \<open>RFC 3339 \<open>date-time\<close> without fraction: \<open>full-date "T" partial-time time-offset\<close>\<close>
  "isRFC3339 s =
     (matches ''dddd-dd-ddTdd:dd:ddZ'' s \<or>
      matches ''dddd-dd-ddTdd:dd:dd+dd:dd'' s \<or>
      matches ''dddd-dd-ddTdd:dd:dd-dd:dd'' s)"

definition civil :: "Time \<Rightarrow> bool" where
  \<comment> \<open>a calendar date with a four-digit year, a time of day and an offset below a day\<close>
  "civil t =
     (0 \<le> tYear t \<and> tYear t \<le> 9999 \<and> 1 \<le> tMonth t \<and> tMonth t \<le> 12 \<and>
      1 \<le> tDay t \<and> tDay t \<le> 31 \<and> 0 \<le> tHour t \<and> tHour t \<le> 23 \<and>
      0 \<le> tMinute t \<and> tMinute t \<le> 59 \<and> 0 \<le> tSecond t \<and> tSecond t \<le> 59 \<and>
      - 86400 < tOffset t \<and> tOffset t < 86400)"

text \<open>
  Reading a timestamp back: the digits of each field as a decimal number, the offset in
  seconds from its sign, hours and minutes. A string that is not a timestamp reads as
  nothing.
\<close>

fun readDecimal :: "nat \<Rightarrow> string \<Rightarrow> nat" where
  \<comment> \<open>the number read so far, then the digits still to read, most significant first\<close>
  "readDecimal n [] = n"
| "readDecimal n (c # cs) = readDecimal (10 * n + (byte c - byte CHR ''0'')) cs"

definition field :: "nat \<Rightarrow> nat \<Rightarrow> string \<Rightarrow> int" where
  \<comment> \<open>the number written in the \<open>len\<close> characters from position \<open>pos\<close> on\<close>
  "field pos len s = int (readDecimal 0 (take len (drop pos s)))"

definition readRFC3339 :: "string \<Rightarrow> Time option" where
  "readRFC3339 s =
     (if isRFC3339 s then
        Some \<lparr>tYear = field 0 4 s, tMonth = field 5 2 s, tDay = field 8 2 s,
              tHour = field 11 2 s, tMinute = field 14 2 s, tSecond = field 17 2 s,
              tOffset =
                (if drop 19 s = ''Z'' then 0
                 else (if take 1 (drop 19 s) = ''-'' then - 1 else 1) *
                      (field 20 2 s * 3600 + field 23 2 s * 60))\<rparr>
      else None)"

definition validRFC3339 :: "string \<Rightarrow> bool" where
  \<comment> \<open>the shape of a timestamp, and fields that are a calendar date, a time of day and
      an offset below a day: month 99 or hour 25 is not a timestamp\<close>
  "validRFC3339 s = (case readRFC3339 s of None \<Rightarrow> False | Some t \<Rightarrow> civil t)"

subsection \<open>A small world to run the handler in\<close>

definition utc :: "int \<Rightarrow> int \<Rightarrow> int \<Rightarrow> int \<Rightarrow> int \<Rightarrow> int \<Rightarrow> Time" where
  "utc y mo d h mi s =
     \<lparr>tYear = y, tMonth = mo, tDay = d, tHour = h, tMinute = mi, tSecond = s, tOffset = 0\<rparr>"

definition abcCert :: Certificate where
  "abcCert =
     \<lparr>DNSNames = [''a.example.com'', ''b.example.com''],
      NotBefore = utc 2024 1 1 0 0 0,
      NotAfter = utc 2025 1 1 0 0 0\<rparr>"

definition abcCertText :: string where
  "abcCertText = ''Certificate: Version: 3 Issuer: CN=Example CA Subject: CN=a.example.com''"

definition demoLibs :: libs where
  \<comment> \<open>three kinds of object: a leaf with a certificate, a leaf of a precertificate
      without one, and anything else, which is not a leaf entry at all\<close>
  "demoLibs =
     \<lparr>jsonDecode = (\<lambda>body.
        if body = ''leaf abc'' then Inr \<lparr>LeafInput = ''x509 abc'', ExtraData = []\<rparr>
        else if body = ''leaf pre'' then Inr \<lparr>LeafInput = ''precert'', ExtraData = []\<rparr>
        else if body = ''leaf der'' then Inr \<lparr>LeafInput = ''x509 der'', ExtraData = []\<rparr>
        else if body = ''leaf ???'' then Inr \<lparr>LeafInput = ''???'', ExtraData = []\<rparr>
        else Inl ''unexpected EOF''),
      logEntryFromLeaf = (\<lambda>index leaf.
        if LeafInput leaf = ''x509 abc'' then Inr \<lparr>X509Cert = Some \<lparr>Raw = ''der abc''\<rparr>\<rparr>
        else if LeafInput leaf = ''x509 der'' then Inr \<lparr>X509Cert = Some \<lparr>Raw = ''der ???''\<rparr>\<rparr>
        else if LeafInput leaf = ''precert'' then Inr \<lparr>X509Cert = None\<rparr>
        else Inl ''failed to unmarshal MerkleTreeLeaf''),
      parseCertificate = (\<lambda>raw.
        if raw = ''der abc'' then Inr abcCert else Inl ''x509: malformed certificate''),
      certificateText = (\<lambda>cert. Inr abcCertText)\<rparr>"

definition demoWorld :: world where
  \<comment> \<open>the store holds five objects; the transport accepts every message sent to a
      non-empty address\<close>
  "demoWorld =
     \<lparr>loadDefaultConfig = None,
      kvGet = (\<lambda>name.
        if name = ''webhook_url'' then (''https://hooks.example/T0'', None)
        else ([], Some ''ParameterNotFound'')),
      getObject = (\<lambda>tr bucket key.
        if key = ''certs/abc.json'' then Inr ''leaf abc''
        else if key = ''certs/pre.json'' then Inr ''leaf pre''
        else if key = ''certs/der.json'' then Inr ''leaf der''
        else if key = ''certs/leaf.json'' then Inr ''leaf ???''
        else if key = ''certs/bad.json'' then Inr ''{''
        else Inl ''NoSuchKey''),
      postWebhook = (\<lambda>tr url text. if url = [] then Some ''unsupported protocol scheme'' else None)\<rparr>"

definition flakyWorld :: world where
  \<comment> \<open>the same store, behind a transport that fails until it has been tried once\<close>
  "flakyWorld =
     demoWorld\<lparr>postWebhook := (\<lambda>tr url text. if posts tr = [] then Some ''timeout'' else None)\<rparr>"

definition unresolvedWorld :: world where
  \<comment> \<open>the same store, with a parameter store that has no \<open>webhook_url\<close>\<close>
  "unresolvedWorld = demoWorld\<lparr>kvGet := (\<lambda>name. ([], Some ''ParameterNotFound''))\<rparr>"

definition obj :: "string \<Rightarrow> S3EventRecord" where
  "obj key = \<lparr>bucketName = ''ct-logs'', objectKey = key\<rparr>"

section \<open>Properties\<close>

subsection \<open>The loop and the events\<close>

lemma forRecords_append:
  "forRecords L w url tr (pre @ rest) =
     (case forRecords L w url tr pre of
        (Continue, tr') \<Rightarrow> forRecords L w url tr' rest
      | (Return err, tr') \<Rightarrow> (Return err, tr'))"
proof (induction pre arbitrary: tr)
  case Nil
  show ?case by simp
next
  case (Cons r pre)
  show ?case
  proof (cases "processRecord L w url tr r")
    case (Pair c tr')
    then show ?thesis using Cons.IH by (cases c) simp_all
  qed
qed

text \<open>
  The three hypotheses below recur in the theorems about one record of a batch. They say
  that the handler gets to that record: the configuration loads, the webhook address is
  \<open>url\<close> (resolved or not), and the loop runs through the records \<open>pre\<close> before it
  without returning, leaving the events \<open>tr\<close>.
\<close>

lemma Handler_reaches:
  assumes "loadDefaultConfig w = None"
    and "getWebhookURL w = (url, tr0)"
    and "forRecords L w url tr0 pre = (Continue, tr)"
  shows "Handler L w \<lparr>Records = pre @ rest\<rparr> = returned (forRecords L w url tr rest)"
  using assms by (simp add: Handler_def forRecords_append)

lemma posts_append: "posts (xs @ ys) = posts xs @ posts ys"
  by (induction xs rule: posts.induct) simp_all


lemma processRecord_skip:
  assumes "\<not> HasPrefix (objectKey rec) prefix'"
  shows "processRecord L w url tr rec =
     (Continue, tr @ [Log LevelInfo ''skipping_file_outside_prefix''
                        [(''key'', objectKey rec), (''prefix'', prefix')]])"
  using assms by (simp add: processRecord_def)

lemma processRecord_fatal:
  assumes "HasPrefix (objectKey rec) prefix'"
    and "(\<exists>m. PathUnescape (objectKey rec) = Inl m \<and> e = ErrPathUnescape m) \<or>
         (\<exists>key. PathUnescape (objectKey rec) = Inr key \<and>
            ((\<exists>m. getObject w tr (bucketName rec) key = Inl m \<and> e = ErrGetObject m) \<or>
             (\<exists>body. getObject w tr (bucketName rec) key = Inr body \<and>
               ((\<exists>m. jsonDecode L body = Inl m \<and> e = ErrDecode m) \<or>
                (\<exists>leaf. jsonDecode L body = Inr leaf \<and>
                  ((\<exists>m. logEntryFromLeaf L 0 leaf = Inl m \<and> e = ErrLogEntryFromLeaf m) \<or>
                   (\<exists>entry c m. logEntryFromLeaf L 0 leaf = Inr entry \<and>
                       X509Cert entry = Some c \<and>
                       parseCertificate L (Raw c) = Inl m \<and> e = ErrParseCertificate m)))))))"
  shows "\<exists>tr'. processRecord L w url tr rec = (Return (Some e), tr') \<and> posts tr' = posts tr"
  using assms by (auto simp: processRecord_def posts_append Let_def)

lemma processRecord_delivered:
  assumes "HasPrefix (objectKey rec) prefix'"
    and "PathUnescape (objectKey rec) = Inr key"
    and "getObject w tr (bucketName rec) key = Inr body"
    and "jsonDecode L body = Inr leaf"
    and "logEntryFromLeaf L 0 leaf = Inr entry"
    and "X509Cert entry = Some c"
    and "parseCertificate L (Raw c) = Inr cert"
    and "certificateText L cert = Inr txt"
  shows "processRecord L w url tr rec =
     (Continue,
      tr @ [GetObject (bucketName rec) key, PostWebhook url (messageText key cert txt)] @
        (case postWebhook w (tr @ [GetObject (bucketName rec) key]) url (messageText key cert txt) of
           Some m \<Rightarrow> [Log LevelError ''slack_webhook_err'' [(''err'', m)]]
         | None \<Rightarrow> []))"
  using assms by (simp add: processRecord_def Let_def split: option.split)

text \<open>No path of the handler returns an error of the transport or of the parameter store.\<close>

lemma processRecord_origin:
  "fst (processRecord L w url tr rec) \<noteq> Return (Some (ErrPostWebhook m)) \<and>
   fst (processRecord L w url tr rec) \<noteq> Return (Some (ErrKvGet m)) \<and>
   fst (processRecord L w url tr rec) \<noteq> Return (Some (ErrLoadDefaultConfig m))"
  by (simp add: processRecord_def Let_def split: sum.split option.split)

lemma forRecords_origin:
  "fst (forRecords L w url tr recs) \<noteq> Return (Some (ErrPostWebhook m)) \<and>
   fst (forRecords L w url tr recs) \<noteq> Return (Some (ErrKvGet m)) \<and>
   fst (forRecords L w url tr recs) \<noteq> Return (Some (ErrLoadDefaultConfig m))"
proof (induction recs arbitrary: tr)
  case Nil
  show ?case by simp
next
  case (Cons r recs)
  show ?case
  proof (cases "processRecord L w url tr r")
    case (Pair c tr')
    then show ?thesis
      using Cons.IH [of tr'] processRecord_origin [of L w url tr r m]
      by (cases c) simp_all
  qed
qed

lemma fst_returned: "fst (returned r) = Some e \<longleftrightarrow> fst r = Return (Some e)"
  by (cases r rule: returned.cases) auto

lemma Handler_origin:
  "fst (Handler L w evt) \<noteq> Some (ErrPostWebhook m) \<and> fst (Handler L w evt) \<noteq> Some (ErrKvGet m)"
  using forRecords_origin [of L w _ _ "Records evt" m]
  by (simp add: Handler_def fst_returned split: option.split prod.split)

lemma processRecord_extends: "\<exists>ext. snd (processRecord L w url tr rec) = tr @ ext"
  by (simp add: processRecord_def Let_def split: sum.split option.split)

lemma forRecords_extends: "\<exists>ext. snd (forRecords L w url tr recs) = tr @ ext"
proof (induction recs arbitrary: tr)
  case Nil
  show ?case by simp
next
  case (Cons r recs)
  obtain c tr' where step: "processRecord L w url tr r = (c, tr')"
    by (cases "processRecord L w url tr r")
  obtain e1 where e1: "tr' = tr @ e1"
    using processRecord_extends [of L w url tr r] step by auto
  show ?case
  proof (cases c)
    case Continue
    obtain e2 where "snd (forRecords L w url tr' recs) = tr' @ e2"
      using Cons.IH [of tr'] by blast
    then show ?thesis using step Continue e1 by simp
  next
    case (Return err)
    then show ?thesis using step e1 by simp
  qed
qed

lemma snd_returned: "snd (returned r) = snd r"
  by (cases r rule: returned.cases) simp_all

lemma Handler_delivers:
  assumes "loadDefaultConfig w = None"
    and "getWebhookURL w = (url, tr0)"
    and "forRecords L w url tr0 pre = (Continue, tr)"
    and "HasPrefix (objectKey rec) prefix'"
    and "PathUnescape (objectKey rec) = Inr key"
    and "getObject w tr (bucketName rec) key = Inr body"
    and "jsonDecode L body = Inr leaf"
    and "logEntryFromLeaf L 0 leaf = Inr entry"
    and "X509Cert entry = Some c"
    and "parseCertificate L (Raw c) = Inr cert"
    and "certificateText L cert = Inr txt"
  shows "\<exists>later. posts (snd (Handler L w \<lparr>Records = pre @ rec # rest\<rparr>)) =
                   posts tr @ (url, messageText key cert txt) # later"
proof -
  obtain logs where step: "processRecord L w url tr rec =
      (Continue, tr @ [GetObject (bucketName rec) key, PostWebhook url (messageText key cert txt)] @ logs)"
    and logs: "posts logs = []"
    using processRecord_delivered [OF assms(4-11), of url]
    by (cases "postWebhook w (tr @ [GetObject (bucketName rec) key]) url (messageText key cert txt)")
       auto
  let ?tr' = "tr @ [GetObject (bucketName rec) key, PostWebhook url (messageText key cert txt)] @ logs"
  obtain ext where ext: "snd (forRecords L w url ?tr' rest) = ?tr' @ ext"
    using forRecords_extends by blast
  have "Handler L w \<lparr>Records = pre @ rec # rest\<rparr> = returned (forRecords L w url ?tr' rest)"
    using Handler_reaches [OF assms(1-3), of "rec # rest"] step by simp
  then have "snd (Handler L w \<lparr>Records = pre @ rec # rest\<rparr>) = ?tr' @ ext"
    using ext by (simp add: snd_returned)
  then show ?thesis using logs by (simp add: posts_append)
qed

lemma processRecord_loads:
  assumes "HasPrefix (objectKey rec) prefix'"
    and "PathUnescape (objectKey rec) = Inr key"
  shows "\<exists>c after. processRecord L w url tr rec = (c, tr @ GetObject (bucketName rec) key # after)"
  using assms by (simp add: processRecord_def Let_def split: sum.split option.split)

lemma forRecords_begins:
  assumes "processRecord L w url tr rec = (c, tr @ e # after)"
  shows "\<exists>later. snd (forRecords L w url tr (rec # recs)) = tr @ e # later"
proof (cases c)
  case Continue
  obtain ext where "snd (forRecords L w url (tr @ e # after) recs) = (tr @ e # after) @ ext"
    using forRecords_extends by blast
  then show ?thesis using assms Continue by simp
next
  case (Return err)
  then show ?thesis using assms by simp
qed

lemma getWebhookURL_posts: "getWebhookURL w = (url, tr0) \<Longrightarrow> posts tr0 = []"
  by (auto simp: getWebhookURL_def split: prod.splits option.splits)

subsection \<open>Joining names\<close>

lemma Join_commaSpaceJoin_aux: "n @ joinRest ns '', '' = commaSpaceJoin (n # ns)"
  by (induction ns arbitrary: n) simp_all

lemma Join_commaSpaceJoin: "Join ns '', '' = commaSpaceJoin ns"
proof (cases ns)
  case Nil
  then show ?thesis by simp
next
  case (Cons n ms)
  then show ?thesis using Join_commaSpaceJoin_aux [of n ms] by (cases ms) simp_all
qed

subsection \<open>The shape of a formatted time\<close>

lemma isDigit_char_of: "d < 10 \<Longrightarrow> isDigit (char_of (byte CHR ''0'' + d))"
  by (simp add: isDigit_def byte_def)

lemma decimal_digits: "list_all isDigit (decimal n)"
proof (induction n rule: decimal.induct)
  case (1 n)
  show ?case
  proof (cases "n < 10")
    case True
    then show ?thesis by (subst decimal.simps) (simp add: isDigit_char_of)
  next
    case False
    then show ?thesis using 1 by (subst decimal.simps) (simp add: isDigit_char_of)
  qed
qed

lemma decimal_length: "n < 10 ^ k \<Longrightarrow> 0 < k \<Longrightarrow> length (decimal n) \<le> k"
proof (induction k arbitrary: n)
  case 0
  then show ?case by simp
next
  case (Suc k)
  show ?case
  proof (cases "n < 10")
    case True
    then show ?thesis by (subst decimal.simps) simp
  next
    case False
    with Suc.prems have k: "0 < k" by (cases k) simp_all
    from Suc.prems have "n div 10 < 10 ^ k" by (simp add: less_mult_imp_div_less mult.commute)
    then have "length (decimal (n div 10)) \<le> k" using Suc.IH k by blast
    with False show ?thesis by (subst decimal.simps) simp
  qed
qed

lemma appendInt_app: "appendInt b x width = b @ appendInt [] x width"
  by (simp add: appendInt_def Let_def)

lemma appendInt_padded:
  assumes "0 \<le> x" and "x < 10 ^ width" and "0 < width"
  shows "length (appendInt [] x width) = width \<and> list_all isDigit (appendInt [] x width)"
proof -
  let ?ds = "decimal (nat \<bar>x\<bar>)"
  have "nat \<bar>x\<bar> < 10 ^ width" using assms(1,2) by (simp add: nat_less_iff)
  then have len: "length ?ds \<le> width" using assms(3) by (rule decimal_length)
  have zero: "isDigit CHR ''0''" by (simp add: isDigit_def byte_def)
  let ?out = "replicate (width - length ?ds) CHR ''0'' @ ?ds"
  have "appendInt [] x width = ?out" using assms(1) by (simp add: appendInt_def Let_def)
  moreover have "length ?out = width" using len by simp
  moreover have "list_all isDigit ?out"
    using zero decimal_digits [of "nat \<bar>x\<bar>"] by (auto simp: list_all_iff)
  ultimately show ?thesis by simp
qed

lemma appendInt2:
  assumes "0 \<le> x" and "x \<le> 99"
  shows "\<exists>a b. appendInt [] x 2 = [a, b] \<and> isDigit a \<and> isDigit b"
proof -
  have ds: "length (appendInt [] x 2) = 2" "list_all isDigit (appendInt [] x 2)"
    using appendInt_padded [of x 2] assms by auto
  from ds(1) obtain a b where "appendInt [] x 2 = [a, b]"
    by (auto simp: length_Suc_conv numeral_2_eq_2)
  with ds(2) show ?thesis by auto
qed

lemma appendInt4:
  assumes "0 \<le> x" and "x \<le> 9999"
  shows "\<exists>a b c d. appendInt [] x 4 = [a, b, c, d] \<and>
           isDigit a \<and> isDigit b \<and> isDigit c \<and> isDigit d"
proof -
  have ds: "length (appendInt [] x 4) = 4" "list_all isDigit (appendInt [] x 4)"
    using appendInt_padded [of x 4] assms by auto
  from ds(1) obtain a b c d where "appendInt [] x 4 = [a, b, c, d]"
    by (auto simp: length_Suc_conv eval_nat_numeral)
  with ds(2) show ?thesis by auto
qed

lemma appendZone_app: "appendZone b off = b @ appendZone [] off"
  by (simp add: appendZone_def Let_def appendInt_app [of "_ @ _"] appendInt_app [of "_ # _"])

lemma appendZone_shape:
  assumes "- 86400 < off" and "off < 86400"
  shows "appendZone [] off = ''Z'' \<or>
         (\<exists>s h1 h2 m1 m2. appendZone [] off = [s, h1, h2, CHR '':'', m1, m2] \<and>
            (s = CHR ''+'' \<or> s = CHR ''-'') \<and>
            isDigit h1 \<and> isDigit h2 \<and> isDigit m1 \<and> isDigit m2)"
proof (cases "off = 0")
  case True
  then show ?thesis by (simp add: appendZone_def)
next
  case False
  define z where "z = \<bar>off sdiv 60\<bar>"
  have z: "0 \<le> z" "z < 1440"
    using assms by (auto simp: z_def signed_divide_int_def abs_mult sgn_if)
  then have h: "0 \<le> z div 60" "z div 60 \<le> 99" and m: "0 \<le> z mod 60" "z mod 60 \<le> 99"
    by auto
  obtain h1 h2 where hh: "appendInt [] (z div 60) 2 = [h1, h2]" "isDigit h1" "isDigit h2"
    using appendInt2 [OF h] by blast
  obtain m1 m2 where mm: "appendInt [] (z mod 60) 2 = [m1, m2]" "isDigit m1" "isDigit m2"
    using appendInt2 [OF m] by blast
  have "appendZone [] off =
          (if off sdiv 60 < 0 then ''-'' else ''+'') @ appendInt [] (z div 60) 2 @ '':'' @
          appendInt [] (z mod 60) 2"
    using False
    by (simp add: appendZone_def Let_def z_def appendInt_app [of "_ @ _"] appendInt_app [of "_ # _"])
  then show ?thesis using hh mm by auto
qed

lemma FormatRFC3339_shape:
  assumes "civil t"
  shows "isRFC3339 (FormatRFC3339 t)"
proof -
  from assms have y: "0 \<le> tYear t" "tYear t \<le> 9999" and mo: "0 \<le> tMonth t" "tMonth t \<le> 99"
    and d: "0 \<le> tDay t" "tDay t \<le> 99" and h: "0 \<le> tHour t" "tHour t \<le> 99"
    and mi: "0 \<le> tMinute t" "tMinute t \<le> 99" and s: "0 \<le> tSecond t" "tSecond t \<le> 99"
    and off: "- 86400 < tOffset t" "tOffset t < 86400"
    by (simp_all add: civil_def)
  obtain y1 y2 y3 y4 where Y: "appendInt [] (tYear t) 4 = [y1, y2, y3, y4]"
    "isDigit y1" "isDigit y2" "isDigit y3" "isDigit y4"
    using appendInt4 [OF y] by blast
  obtain mo1 mo2 where Mo: "appendInt [] (tMonth t) 2 = [mo1, mo2]" "isDigit mo1" "isDigit mo2"
    using appendInt2 [OF mo] by blast
  obtain d1 d2 where D: "appendInt [] (tDay t) 2 = [d1, d2]" "isDigit d1" "isDigit d2"
    using appendInt2 [OF d] by blast
  obtain h1 h2 where H: "appendInt [] (tHour t) 2 = [h1, h2]" "isDigit h1" "isDigit h2"
    using appendInt2 [OF h] by blast
  obtain mi1 mi2 where Mi: "appendInt [] (tMinute t) 2 = [mi1, mi2]" "isDigit mi1" "isDigit mi2"
    using appendInt2 [OF mi] by blast
  obtain s1 s2 where S: "appendInt [] (tSecond t) 2 = [s1, s2]" "isDigit s1" "isDigit s2"
    using appendInt2 [OF s] by blast
  have fmt: "FormatRFC3339 t =
          [y1, y2, y3, y4, CHR ''-'', mo1, mo2, CHR ''-'', d1, d2, CHR ''T'',
           h1, h2, CHR '':'', mi1, mi2, CHR '':'', s1, s2] @ appendZone [] (tOffset t)"
    unfolding FormatRFC3339_def
    by (subst appendZone_app) (simp add: appendInt_app [of "_ @ _"] appendInt_app [of "_ # _"] Y Mo D H Mi S)
  from appendZone_shape [OF off] show ?thesis
  proof
    assume "appendZone [] (tOffset t) = ''Z''"
    then show ?thesis
      using Y Mo D H Mi S by (simp add: fmt isRFC3339_def)
  next
    assume "\<exists>s h1 h2 m1 m2. appendZone [] (tOffset t) = [s, h1, h2, CHR '':'', m1, m2] \<and>
            (s = CHR ''+'' \<or> s = CHR ''-'') \<and>
            isDigit h1 \<and> isDigit h2 \<and> isDigit m1 \<and> isDigit m2"
    then obtain sg z1 z2 z3 z4 where Z: "appendZone [] (tOffset t) = [sg, z1, z2, CHR '':'', z3, z4]"
      "sg = CHR ''+'' \<or> sg = CHR ''-''" "isDigit z1" "isDigit z2" "isDigit z3" "isDigit z4"
      by blast
    from Z(2) show ?thesis
      using Y Mo D H Mi S Z(1,3-6) by (auto simp: fmt isRFC3339_def)
  qed
qed

subsection \<open>Reading a formatted time back\<close>

lemma digit_value: "d < 10 \<Longrightarrow> byte (char_of (byte CHR ''0'' + d)) - byte CHR ''0'' = d"
  by (simp add: byte_def)

lemma readDecimal_append: "readDecimal n (xs @ ys) = readDecimal (readDecimal n xs) ys"
  by (induction xs arbitrary: n) simp_all

lemma readDecimal_decimal: "readDecimal 0 (decimal n) = n"
proof (induction n rule: decimal.induct)
  case (1 n)
  show ?case
  proof (cases "n < 10")
    case True
    then show ?thesis by (subst decimal.simps) (simp add: digit_value)
  next
    case False
    then have "readDecimal 0 (decimal (n div 10)) = n div 10" using 1 by simp
    with False show ?thesis
      by (subst decimal.simps) (simp add: readDecimal_append digit_value)
  qed
qed

lemma readDecimal_zeros: "readDecimal 0 (replicate k CHR ''0'') = 0"
  by (induction k) (simp_all add: byte_def)

lemma readDecimal_appendInt: "0 \<le> x \<Longrightarrow> readDecimal 0 (appendInt [] x width) = nat x"
  by (simp add: appendInt_def Let_def readDecimal_append readDecimal_zeros readDecimal_decimal)

lemma appendInt2_value:
  assumes "0 \<le> x" and "x \<le> 99"
  shows "\<exists>a b. appendInt [] x 2 = [a, b] \<and> isDigit a \<and> isDigit b \<and>
               int (readDecimal 0 [a, b]) = x"
proof -
  obtain a b where "appendInt [] x 2 = [a, b]" "isDigit a" "isDigit b"
    using appendInt2 [OF assms] by blast
  moreover have "int (readDecimal 0 (appendInt [] x 2)) = x"
    using assms(1) by (simp add: readDecimal_appendInt)
  ultimately show ?thesis by auto
qed

lemma appendInt4_value:
  assumes "0 \<le> x" and "x \<le> 9999"
  shows "\<exists>a b c d. appendInt [] x 4 = [a, b, c, d] \<and>
           isDigit a \<and> isDigit b \<and> isDigit c \<and> isDigit d \<and>
           int (readDecimal 0 [a, b, c, d]) = x"
proof -
  obtain a b c d where "appendInt [] x 4 = [a, b, c, d]" "isDigit a" "isDigit b" "isDigit c" "isDigit d"
    using appendInt4 [OF assms] by blast
  moreover have "int (readDecimal 0 (appendInt [] x 4)) = x"
    using assms(1) by (simp add: readDecimal_appendInt)
  ultimately show ?thesis by auto
qed

lemma appendZone_value:
  assumes "- 86400 < off" and "off < 86400" and "off \<noteq> 0"
  shows "\<exists>s h1 h2 m1 m2. appendZone [] off = [s, h1, h2, CHR '':'', m1, m2] \<and>
            (s = CHR ''+'' \<or> s = CHR ''-'') \<and>
            isDigit h1 \<and> isDigit h2 \<and> isDigit m1 \<and> isDigit m2 \<and>
            (if s = CHR ''-'' then - 1 else 1) *
              (int (readDecimal 0 [h1, h2]) * 3600 + int (readDecimal 0 [m1, m2]) * 60)
              = (off sdiv 60) * 60"
proof -
  define z where "z = \<bar>off sdiv 60\<bar>"
  have z: "0 \<le> z" "z < 1440"
    using assms by (auto simp: z_def signed_divide_int_def abs_mult sgn_if)
  then have h: "0 \<le> z div 60" "z div 60 \<le> 99" and m: "0 \<le> z mod 60" "z mod 60 \<le> 99"
    by auto
  obtain h1 h2 where hh: "appendInt [] (z div 60) 2 = [h1, h2]" "isDigit h1" "isDigit h2"
    "int (readDecimal 0 [h1, h2]) = z div 60"
    using appendInt2_value [OF h] by blast
  obtain m1 m2 where mm: "appendInt [] (z mod 60) 2 = [m1, m2]" "isDigit m1" "isDigit m2"
    "int (readDecimal 0 [m1, m2]) = z mod 60"
    using appendInt2_value [OF m] by blast
  have out: "appendZone [] off =
          (if off sdiv 60 < 0 then ''-'' else ''+'') @ appendInt [] (z div 60) 2 @ '':'' @
          appendInt [] (z mod 60) 2"
    using assms(3)
    by (simp add: appendZone_def Let_def z_def appendInt_app [of "_ @ _"] appendInt_app [of "_ # _"])
  have total: "(z div 60) * 3600 + (z mod 60) * 60 = z * 60"
    by presburger
  have "(if off sdiv 60 < 0 then - 1 else 1) * (z * 60) = (off sdiv 60) * 60"
    by (simp add: z_def)
  then show ?thesis using out hh mm total by auto
qed

lemma FormatRFC3339_read:
  assumes "civil t"
  shows "readRFC3339 (FormatRFC3339 t) = Some (t\<lparr>tOffset := (tOffset t sdiv 60) * 60\<rparr>)"
proof -
  from assms have y: "0 \<le> tYear t" "tYear t \<le> 9999" and mo: "0 \<le> tMonth t" "tMonth t \<le> 99"
    and d: "0 \<le> tDay t" "tDay t \<le> 99" and h: "0 \<le> tHour t" "tHour t \<le> 99"
    and mi: "0 \<le> tMinute t" "tMinute t \<le> 99" and s: "0 \<le> tSecond t" "tSecond t \<le> 99"
    and off: "- 86400 < tOffset t" "tOffset t < 86400"
    by (simp_all add: civil_def)
  obtain y1 y2 y3 y4 where Y: "appendInt [] (tYear t) 4 = [y1, y2, y3, y4]"
    "int (readDecimal 0 [y1, y2, y3, y4]) = tYear t"
    using appendInt4_value [OF y] by blast
  obtain mo1 mo2 where Mo: "appendInt [] (tMonth t) 2 = [mo1, mo2]"
    "int (readDecimal 0 [mo1, mo2]) = tMonth t"
    using appendInt2_value [OF mo] by blast
  obtain d1 d2 where D: "appendInt [] (tDay t) 2 = [d1, d2]" "int (readDecimal 0 [d1, d2]) = tDay t"
    using appendInt2_value [OF d] by blast
  obtain h1 h2 where H: "appendInt [] (tHour t) 2 = [h1, h2]" "int (readDecimal 0 [h1, h2]) = tHour t"
    using appendInt2_value [OF h] by blast
  obtain mi1 mi2 where Mi: "appendInt [] (tMinute t) 2 = [mi1, mi2]"
    "int (readDecimal 0 [mi1, mi2]) = tMinute t"
    using appendInt2_value [OF mi] by blast
  obtain s1 s2 where S: "appendInt [] (tSecond t) 2 = [s1, s2]"
    "int (readDecimal 0 [s1, s2]) = tSecond t"
    using appendInt2_value [OF s] by blast
  have fmt: "FormatRFC3339 t =
          [y1, y2, y3, y4, CHR ''-'', mo1, mo2, CHR ''-'', d1, d2, CHR ''T'',
           h1, h2, CHR '':'', mi1, mi2, CHR '':'', s1, s2] @ appendZone [] (tOffset t)"
    unfolding FormatRFC3339_def
    by (subst appendZone_app)
       (simp add: appendInt_app [of "_ @ _"] appendInt_app [of "_ # _"] Y Mo D H Mi S)
  have shape: "isRFC3339 (FormatRFC3339 t)" using assms by (rule FormatRFC3339_shape)
  have fields: "field 0 4 (FormatRFC3339 t) = tYear t" "field 5 2 (FormatRFC3339 t) = tMonth t"
    "field 8 2 (FormatRFC3339 t) = tDay t" "field 11 2 (FormatRFC3339 t) = tHour t"
    "field 14 2 (FormatRFC3339 t) = tMinute t" "field 17 2 (FormatRFC3339 t) = tSecond t"
    using Y(2) Mo(2) D(2) H(2) Mi(2) S(2) by (simp_all add: fmt field_def)
  have zone: "(if drop 19 (FormatRFC3339 t) = ''Z'' then 0
                 else (if take 1 (drop 19 (FormatRFC3339 t)) = ''-'' then - 1 else 1) *
                      (field 20 2 (FormatRFC3339 t) * 3600 + field 23 2 (FormatRFC3339 t) * 60))
              = (tOffset t sdiv 60) * 60"
  proof (cases "tOffset t = 0")
    case True
    then show ?thesis by (simp add: fmt appendZone_def)
  next
    case False
    obtain sg z1 z2 z3 z4 where Z: "appendZone [] (tOffset t) = [sg, z1, z2, CHR '':'', z3, z4]"
      "sg = CHR ''+'' \<or> sg = CHR ''-''"
      "(if sg = CHR ''-'' then - 1 else 1) *
              (int (readDecimal 0 [z1, z2]) * 3600 + int (readDecimal 0 [z3, z4]) * 60)
              = (tOffset t sdiv 60) * 60"
      using appendZone_value [OF off False] by blast
    show ?thesis using Z(3) by (simp add: fmt Z(1) field_def)
  qed
  show ?thesis
    unfolding readRFC3339_def using shape fields zone by simp
qed

lemma civil_whole_minutes:
  assumes "civil t"
  shows "civil (t\<lparr>tOffset := (tOffset t sdiv 60) * 60\<rparr>)"
proof -
  have "- 86400 < (tOffset t sdiv 60) * 60 \<and> (tOffset t sdiv 60) * 60 < 86400"
    using assms by (auto simp: civil_def signed_divide_int_def sgn_if)
  then show ?thesis using assms by (simp add: civil_def)
qed

lemma FormatRFC3339_valid: "civil t \<Longrightarrow> validRFC3339 (FormatRFC3339 t)"
  by (simp add: validRFC3339_def FormatRFC3339_read civil_whole_minutes)

subsection \<open>Runs in the small world\<close>

lemma demo_start:
  "loadDefaultConfig demoWorld = None"
  "getWebhookURL demoWorld = (''https://hooks.example/T0'', [])"
  by (simp_all add: demoWorld_def getWebhookURL_def)

lemma demo_keys:
  "HasPrefix ''certs/abc.json'' prefix'" "PathUnescape ''certs/abc.json'' = Inr ''certs/abc.json''"
  "HasPrefix ''certs/pre.json'' prefix'" "PathUnescape ''certs/pre.json'' = Inr ''certs/pre.json''"
  "HasPrefix ''certs/bad.json'' prefix'" "PathUnescape ''certs/bad.json'' = Inr ''certs/bad.json''"
  "\<not> HasPrefix ''other/abc.json'' prefix'"
  by (simp_all add: HasPrefix_def prefix'_def)

lemma demo_pre:
  "getObject demoWorld tr b ''certs/pre.json'' = Inr ''leaf pre''"
  "jsonDecode demoLibs ''leaf pre'' = Inr \<lparr>LeafInput = ''precert'', ExtraData = []\<rparr>"
  "logEntryFromLeaf demoLibs 0 \<lparr>LeafInput = ''precert'', ExtraData = []\<rparr> = Inr \<lparr>X509Cert = None\<rparr>"
  "X509Cert \<lparr>X509Cert = None\<rparr> = None"
  by (simp_all add: demoWorld_def demoLibs_def)

lemma demo_abc:
  "jsonDecode demoLibs ''leaf abc'' = Inr \<lparr>LeafInput = ''x509 abc'', ExtraData = []\<rparr>"
  "logEntryFromLeaf demoLibs 0 \<lparr>LeafInput = ''x509 abc'', ExtraData = []\<rparr> =
     Inr \<lparr>X509Cert = Some \<lparr>Raw = ''der abc''\<rparr>\<rparr>"
  "X509Cert \<lparr>X509Cert = Some \<lparr>Raw = ''der abc''\<rparr>\<rparr> = Some \<lparr>Raw = ''der abc''\<rparr>"
  "parseCertificate demoLibs (Raw \<lparr>Raw = ''der abc''\<rparr>) = Inr abcCert"
  "certificateText demoLibs abcCert = Inr abcCertText"
  by (simp_all add: demoLibs_def)

lemma demo_abc_step:
  "processRecord demoLibs demoWorld ''https://hooks.example/T0'' [] (obj ''certs/abc.json'') =
     (Continue, [GetObject ''ct-logs'' ''certs/abc.json'',
        PostWebhook ''https://hooks.example/T0'' (messageText ''certs/abc.json'' abcCert abcCertText)])"
  by (simp add: processRecord_def obj_def demo_keys demoWorld_def demoLibs_def Let_def)

lemma demo_abc_run:
  "forRecords demoLibs demoWorld ''https://hooks.example/T0'' [] [obj ''certs/abc.json''] =
     (Continue, [GetObject ''ct-logs'' ''certs/abc.json'',
        PostWebhook ''https://hooks.example/T0'' (messageText ''certs/abc.json'' abcCert abcCertText)])"
  by (simp add: demo_abc_step)

lemma flaky_start:
  "loadDefaultConfig flakyWorld = None"
  "getWebhookURL flakyWorld = (''https://hooks.example/T0'', [])"
  by (simp_all add: flakyWorld_def demoWorld_def getWebhookURL_def)

lemma unresolved_start:
  "loadDefaultConfig unresolvedWorld = None"
  "kvGet unresolvedWorld ''webhook_url'' = ([], Some ''ParameterNotFound'')"
  by (simp_all add: unresolvedWorld_def demoWorld_def)

lemma civil_utc: "civil (utc 2024 1 1 0 0 0)" "civil (utc 2025 1 1 0 0 0)"
  by (simp_all add: civil_def utc_def)

lemma demo_unescape:
  "PathUnescape ''certs%2Fabc.json'' = Inr ''certs/abc.json''"
  "PathUnescape ''certs/a%2Bb.json'' = Inr ''certs/a+b.json''"
  "PathUnescape ''%zz'' = Inl ''%zz''"
  "PathUnescape ''certs/%zz'' = Inl ''%zz''"
  by code_simp+

lemma format_2024: "FormatRFC3339 (utc 2024 1 1 0 0 0) = ''2024-01-01T00:00:00Z''"
  "FormatRFC3339 (utc 2025 1 1 0 0 0) = ''2025-01-01T00:00:00Z''"
  by code_simp+

lemma demo_text:
  "messageText ''certs/abc.json'' abcCert abcCertText =
     ''*New Certificate Detected*'' @ [CHR 0x0A, CHR 0x0A] @
     ''*Key:* certs/abc.json'' @ [CHR 0x0A] @
     ''*DNS Names:* a.example.com, b.example.com'' @ [CHR 0x0A] @
     ''*Not Before:* 2024-01-01T00:00:00Z'' @ [CHR 0x0A] @
     ''*Not After:* 2025-01-01T00:00:00Z'' @ [CHR 0x0A, CHR 0x0A] @
     ''*Certificate Details:*'' @ [CHR 0x0A] @
     ''```Certificate: Version: 3 Issuer: CN=Example CA Subject: CN=a.example.com```''"
  by (simp add: messageText_def abcCert_def abcCertText_def format_2024)

subsection \<open>Keys outside the prefix\<close>



subsection \<open>Errors that end the run\<close>

text \<open>
  Claim C2. When the handler has got to a record under the prefix and one of the five
  steps fails on it (unescaping the key, fetching the object, decoding the leaf entry,
  rebuilding the log entry, parsing the certificate), the handler returns that error.
  Nothing is sent for this record or for a later one: the notifications are those that
  had been sent before it, and the records after it do not change the outcome. A step
  fails here when the handler runs it and it returns an error; a key outside the prefix
  is never unescaped.
\<close>

theorem fatal_error_returned:
  assumes "loadDefaultConfig w = None"
    and "getWebhookURL w = (url, tr0)"
    and "forRecords L w url tr0 pre = (Continue, tr)"
    and "HasPrefix (objectKey rec) prefix'"
    and "(\<exists>m. PathUnescape (objectKey rec) = Inl m \<and> e = ErrPathUnescape m) \<or>
         (\<exists>key. PathUnescape (objectKey rec) = Inr key \<and>
            ((\<exists>m. getObject w tr (bucketName rec) key = Inl m \<and> e = ErrGetObject m) \<or>
             (\<exists>body. getObject w tr (bucketName rec) key = Inr body \<and>
               ((\<exists>m. jsonDecode L body = Inl m \<and> e = ErrDecode m) \<or>
                (\<exists>leaf. jsonDecode L body = Inr leaf \<and>
                  ((\<exists>m. logEntryFromLeaf L 0 leaf = Inl m \<and> e = ErrLogEntryFromLeaf m) \<or>
                   (\<exists>entry c m. logEntryFromLeaf L 0 leaf = Inr entry \<and>
                       X509Cert entry = Some c \<and>
                       parseCertificate L (Raw c) = Inl m \<and> e = ErrParseCertificate m)))))))"
  shows "fst (Handler L w \<lparr>Records = pre @ rec # rest\<rparr>) = Some e \<and>
         posts (snd (Handler L w \<lparr>Records = pre @ rec # rest\<rparr>)) = posts tr \<and>
         Handler L w \<lparr>Records = pre @ rec # rest\<rparr> = Handler L w \<lparr>Records = pre @ [rec]\<rparr>"
proof -
  obtain tr' where step: "processRecord L w url tr rec = (Return (Some e), tr')"
    and quiet: "posts tr' = posts tr"
    using processRecord_fatal [OF assms(4,5)] by blast
  have "Handler L w \<lparr>Records = pre @ rec # rs\<rparr> = (Some e, tr')" for rs
    using Handler_reaches [OF assms(1-3), of "rec # rs"] step by simp
  then show ?thesis using quiet by simp
qed

theorem fatal_error_returned_witness:
  "(fst (Handler demoLibs demoWorld
          \<lparr>Records = [obj ''certs/abc.json''] @ obj ''certs/bad.json'' # [obj ''certs/abc.json'']\<rparr>)
     = Some (ErrDecode ''unexpected EOF'') \<and>
   posts (snd (Handler demoLibs demoWorld
          \<lparr>Records = [obj ''certs/abc.json''] @ obj ''certs/bad.json'' # [obj ''certs/abc.json'']\<rparr>))
     = posts [GetObject ''ct-logs'' ''certs/abc.json'',
        PostWebhook ''https://hooks.example/T0'' (messageText ''certs/abc.json'' abcCert abcCertText)] \<and>
   Handler demoLibs demoWorld
          \<lparr>Records = [obj ''certs/abc.json''] @ obj ''certs/bad.json'' # [obj ''certs/abc.json'']\<rparr>
     = Handler demoLibs demoWorld \<lparr>Records = [obj ''certs/abc.json''] @ [obj ''certs/bad.json'']\<rparr>) \<and>
   fst (Handler demoLibs demoWorld \<lparr>Records = [] @ obj ''certs/%zz'' # [obj ''certs/abc.json'']\<rparr>)
     = Some (ErrPathUnescape ''%zz'') \<and>
   fst (Handler demoLibs demoWorld \<lparr>Records = [] @ obj ''certs/none.json'' # [obj ''certs/abc.json'']\<rparr>)
     = Some (ErrGetObject ''NoSuchKey'') \<and>
   fst (Handler demoLibs demoWorld \<lparr>Records = [] @ obj ''certs/leaf.json'' # [obj ''certs/abc.json'']\<rparr>)
     = Some (ErrLogEntryFromLeaf ''failed to unmarshal MerkleTreeLeaf'') \<and>
   fst (Handler demoLibs demoWorld \<lparr>Records = [] @ obj ''certs/der.json'' # [obj ''certs/abc.json'']\<rparr>)
     = Some (ErrParseCertificate ''x509: malformed certificate'')"
proof -
  have reach: "forRecords demoLibs demoWorld ''https://hooks.example/T0'' [] [] = (Continue, [])"
    by simp
  have keys: "HasPrefix (objectKey (obj ''certs/bad.json'')) prefix'"
    "HasPrefix (objectKey (obj ''certs/%zz'')) prefix'"
    "HasPrefix (objectKey (obj ''certs/none.json'')) prefix'"
    "HasPrefix (objectKey (obj ''certs/leaf.json'')) prefix'"
    "HasPrefix (objectKey (obj ''certs/der.json'')) prefix'"
    by (simp_all add: obj_def HasPrefix_def prefix'_def)
  have "fst (Handler demoLibs demoWorld
          \<lparr>Records = [obj ''certs/abc.json''] @ obj ''certs/bad.json'' # [obj ''certs/abc.json'']\<rparr>)
     = Some (ErrDecode ''unexpected EOF'') \<and>
   posts (snd (Handler demoLibs demoWorld
          \<lparr>Records = [obj ''certs/abc.json''] @ obj ''certs/bad.json'' # [obj ''certs/abc.json'']\<rparr>))
     = posts [GetObject ''ct-logs'' ''certs/abc.json'',
        PostWebhook ''https://hooks.example/T0'' (messageText ''certs/abc.json'' abcCert abcCertText)] \<and>
   Handler demoLibs demoWorld
          \<lparr>Records = [obj ''certs/abc.json''] @ obj ''certs/bad.json'' # [obj ''certs/abc.json'']\<rparr>
     = Handler demoLibs demoWorld \<lparr>Records = [obj ''certs/abc.json''] @ [obj ''certs/bad.json'']\<rparr>"
    by (rule fatal_error_returned [OF demo_start demo_abc_run keys(1)])
       (simp add: obj_def demo_keys demoWorld_def demoLibs_def)
  moreover have "fst (Handler demoLibs demoWorld \<lparr>Records = [] @ obj ''certs/%zz'' # [obj ''certs/abc.json'']\<rparr>)
     = Some (ErrPathUnescape ''%zz'')"
    using fatal_error_returned [OF demo_start reach keys(2), of "ErrPathUnescape ''%zz''"]
    by (simp add: obj_def ishex_def byte_def)
  moreover have "fst (Handler demoLibs demoWorld \<lparr>Records = [] @ obj ''certs/none.json'' # [obj ''certs/abc.json'']\<rparr>)
     = Some (ErrGetObject ''NoSuchKey'')"
    using fatal_error_returned [OF demo_start reach keys(3), of "ErrGetObject ''NoSuchKey''"]
    by (simp add: obj_def demoWorld_def)
  moreover have "fst (Handler demoLibs demoWorld \<lparr>Records = [] @ obj ''certs/leaf.json'' # [obj ''certs/abc.json'']\<rparr>)
     = Some (ErrLogEntryFromLeaf ''failed to unmarshal MerkleTreeLeaf'')"
    using fatal_error_returned [OF demo_start reach keys(4), of "ErrLogEntryFromLeaf ''failed to unmarshal MerkleTreeLeaf''"]
    by (simp add: obj_def demoWorld_def demoLibs_def)
  moreover have "fst (Handler demoLibs demoWorld \<lparr>Records = [] @ obj ''certs/der.json'' # [obj ''certs/abc.json'']\<rparr>)
     = Some (ErrParseCertificate ''x509: malformed certificate'')"
    using fatal_error_returned [OF demo_start reach keys(5), of "ErrParseCertificate ''x509: malformed certificate''"]
    by (simp add: obj_def demoWorld_def demoLibs_def)
  ultimately show ?thesis by blast
qed

subsection \<open>A leaf entry without a certificate\<close>

text \<open>
  Claim C10. When the handler has got to a record whose log entry carries no X.509
  certificate, it logs that and returns nil there and then. The value of the handler and
  everything it did are fixed by the records up to this one: whatever follows in the
  batch is neither fetched nor announced, and no error is reported for it.
\<close>

theorem no_certificate_returns_nil:
  assumes "loadDefaultConfig w = None"
    and "getWebhookURL w = (url, tr0)"
    and "forRecords L w url tr0 pre = (Continue, tr)"
    and "HasPrefix (objectKey rec) prefix'"
    and "PathUnescape (objectKey rec) = Inr key"
    and "getObject w tr (bucketName rec) key = Inr body"
    and "jsonDecode L body = Inr leaf"
    and "logEntryFromLeaf L 0 leaf = Inr entry"
    and "X509Cert entry = None"
  shows "Handler L w \<lparr>Records = pre @ rec # rest\<rparr> =
           (None, tr @ [GetObject (bucketName rec) key,
                        Log LevelError ''expected x509 cert but got none'' [(''key'', key)]])"
proof -
  have "processRecord L w url tr rec =
          (Return None, tr @ [GetObject (bucketName rec) key,
                        Log LevelError ''expected x509 cert but got none'' [(''key'', key)]])"
    using assms(4-9) by (simp add: processRecord_def)
  then show ?thesis
    using Handler_reaches [OF assms(1-3), of "rec # rest"] by simp
qed

theorem no_certificate_returns_nil_witness:
  "Handler demoLibs demoWorld
     \<lparr>Records = [obj ''certs/abc.json''] @ obj ''certs/pre.json'' # [obj ''certs/abc.json'']\<rparr> =
   (None, [GetObject ''ct-logs'' ''certs/abc.json'',
           PostWebhook ''https://hooks.example/T0'' (messageText ''certs/abc.json'' abcCert abcCertText)] @
          [GetObject (bucketName (obj ''certs/pre.json'')) ''certs/pre.json'',
           Log LevelError ''expected x509 cert but got none'' [(''key'', ''certs/pre.json'')]])"
proof -
  have key: "HasPrefix (objectKey (obj ''certs/pre.json'')) prefix'"
    "PathUnescape (objectKey (obj ''certs/pre.json'')) = Inr ''certs/pre.json''"
    by (simp_all add: obj_def demo_keys)
  show ?thesis
    by (rule no_certificate_returns_nil [OF demo_start demo_abc_run key demo_pre])
qed

text \<open>
  Claim C1. The claim holds for the record itself: nothing is sent and no error is
  returned. It fails for the records after it. In the batch below the first object is a
  precertificate entry without a certificate and the second a leaf entry with one; the
  handler stops at the first and returns nil, so the second is neither fetched nor
  announced, although on its own it is.
\<close>

theorem no_certificate_drops_later_records:
  "Handler demoLibs demoWorld \<lparr>Records = [obj ''certs/pre.json'', obj ''certs/abc.json'']\<rparr> =
     (None, [GetObject ''ct-logs'' ''certs/pre.json'',
             Log LevelError ''expected x509 cert but got none'' [(''key'', ''certs/pre.json'')]]) \<and>
   Handler demoLibs demoWorld \<lparr>Records = [obj ''certs/abc.json'']\<rparr> =
     (None, [GetObject ''ct-logs'' ''certs/abc.json'',
             PostWebhook ''https://hooks.example/T0''
               (messageText ''certs/abc.json'' abcCert abcCertText)])"
  by (simp add: Handler_def demo_start demo_abc_step)
     (simp add: processRecord_def obj_def demo_keys demo_pre)


subsection \<open>Failures that do not end the run\<close>

text \<open>
  Claim C6. When the transport fails on the notification of a record, the fetch, the
  attempt to send and the log line of the failure are what the handler did for that
  record, and it goes on: if the record was the last, the handler returns nil; if
  another follows, the next thing done is that record's fetch, or its skipping when its
  key is outside the prefix. The handler's result is that of the loop over the records
  after it, and the error of the transport is never what the handler returns.
\<close>

theorem delivery_failure_not_fatal:
  assumes "loadDefaultConfig w = None"
    and "getWebhookURL w = (url, tr0)"
    and "forRecords L w url tr0 pre = (Continue, tr)"
    and "HasPrefix (objectKey rec) prefix'"
    and "PathUnescape (objectKey rec) = Inr key"
    and "getObject w tr (bucketName rec) key = Inr body"
    and "jsonDecode L body = Inr leaf"
    and "logEntryFromLeaf L 0 leaf = Inr entry"
    and "X509Cert entry = Some c"
    and "parseCertificate L (Raw c) = Inr cert"
    and "certificateText L cert = Inr txt"
    and "postWebhook w (tr @ [GetObject (bucketName rec) key]) url (messageText key cert txt) = Some m"
  shows "Handler L w \<lparr>Records = pre @ rec # rest\<rparr> =
           returned (forRecords L w url
             (tr @ [GetObject (bucketName rec) key,
                    PostWebhook url (messageText key cert txt),
                    Log LevelError ''slack_webhook_err'' [(''err'', m)]]) rest) \<and>
         fst (Handler L w \<lparr>Records = pre @ rec # rest\<rparr>) \<noteq> Some (ErrPostWebhook m') \<and>
         (\<exists>later. snd (Handler L w \<lparr>Records = pre @ rec # rest\<rparr>) =
            tr @ [GetObject (bucketName rec) key,
                  PostWebhook url (messageText key cert txt),
                  Log LevelError ''slack_webhook_err'' [(''err'', m)]] @ later) \<and>
         (rest = [] \<longrightarrow>
            Handler L w \<lparr>Records = pre @ rec # rest\<rparr> =
              (None, tr @ [GetObject (bucketName rec) key,
                           PostWebhook url (messageText key cert txt),
                           Log LevelError ''slack_webhook_err'' [(''err'', m)]])) \<and>
         (\<forall>nxt more key'.
            rest = nxt # more \<and> HasPrefix (objectKey nxt) prefix' \<and>
            PathUnescape (objectKey nxt) = Inr key' \<longrightarrow>
            (\<exists>later. snd (Handler L w \<lparr>Records = pre @ rec # rest\<rparr>) =
               tr @ [GetObject (bucketName rec) key,
                     PostWebhook url (messageText key cert txt),
                     Log LevelError ''slack_webhook_err'' [(''err'', m)]] @
               GetObject (bucketName nxt) key' # later)) \<and>
         (\<forall>nxt more.
            rest = nxt # more \<and> \<not> HasPrefix (objectKey nxt) prefix' \<longrightarrow>
            (\<exists>later. snd (Handler L w \<lparr>Records = pre @ rec # rest\<rparr>) =
               tr @ [GetObject (bucketName rec) key,
                     PostWebhook url (messageText key cert txt),
                     Log LevelError ''slack_webhook_err'' [(''err'', m)]] @
               Log LevelInfo ''skipping_file_outside_prefix''
                 [(''key'', objectKey nxt), (''prefix'', prefix')] # later))"
proof -
  let ?done = "tr @ [GetObject (bucketName rec) key,
                    PostWebhook url (messageText key cert txt),
                    Log LevelError ''slack_webhook_err'' [(''err'', m)]]"
  have "processRecord L w url tr rec = (Continue, ?done)"
    using processRecord_delivered [OF assms(4-11), of url] assms(12) by simp
  then have run: "Handler L w \<lparr>Records = pre @ rec # rest\<rparr> =
           returned (forRecords L w url ?done rest)"
    using Handler_reaches [OF assms(1-3), of "rec # rest"] by simp
  have origin: "fst (Handler L w \<lparr>Records = pre @ rec # rest\<rparr>) \<noteq> Some (ErrPostWebhook m')"
    using Handler_origin [of L w _ m'] by blast
  have trace: "snd (Handler L w \<lparr>Records = pre @ rec # rest\<rparr>) = snd (forRecords L w url ?done rest)"
    using run by (simp add: snd_returned)
  have extends: "\<exists>later. snd (Handler L w \<lparr>Records = pre @ rec # rest\<rparr>) = ?done @ later"
    using forRecords_extends [of L w url ?done rest] trace by simp
  have last: "rest = [] \<longrightarrow> Handler L w \<lparr>Records = pre @ rec # rest\<rparr> = (None, ?done)"
  proof
    assume "rest = []"
    then have "forRecords L w url ?done rest = (Continue, ?done)" by simp
    then show "Handler L w \<lparr>Records = pre @ rec # rest\<rparr> = (None, ?done)"
      using run by simp
  qed
  have fetched: "\<exists>later. snd (Handler L w \<lparr>Records = pre @ rec # rest\<rparr>) =
        ?done @ GetObject (bucketName nxt) key' # later"
    if h: "rest = nxt # more \<and> HasPrefix (objectKey nxt) prefix' \<and>
        PathUnescape (objectKey nxt) = Inr key'" for nxt more key'
  proof -
    obtain c' after where "processRecord L w url ?done nxt =
        (c', ?done @ GetObject (bucketName nxt) key' # after)"
      using processRecord_loads [of nxt key' L w url ?done] h by blast
    then obtain later where "snd (forRecords L w url ?done (nxt # more)) =
        ?done @ GetObject (bucketName nxt) key' # later"
      using forRecords_begins by blast
    then show ?thesis using trace h by simp
  qed
  have skipped: "\<exists>later. snd (Handler L w \<lparr>Records = pre @ rec # rest\<rparr>) =
        ?done @ Log LevelInfo ''skipping_file_outside_prefix''
                 [(''key'', objectKey nxt), (''prefix'', prefix')] # later"
    if h: "rest = nxt # more \<and> \<not> HasPrefix (objectKey nxt) prefix'" for nxt more
  proof -
    have "processRecord L w url ?done nxt =
        (Continue, ?done @ Log LevelInfo ''skipping_file_outside_prefix''
                 [(''key'', objectKey nxt), (''prefix'', prefix')] # [])"
      using processRecord_skip [of nxt L w url ?done] h by simp
    then obtain later where "snd (forRecords L w url ?done (nxt # more)) =
        ?done @ Log LevelInfo ''skipping_file_outside_prefix''
                 [(''key'', objectKey nxt), (''prefix'', prefix')] # later"
      using forRecords_begins by blast
    then show ?thesis using trace h by simp
  qed
  from run origin extends last fetched skipped show ?thesis
    unfolding append_assoc by blast
qed

theorem delivery_failure_not_fatal_witness:
  "Handler demoLibs flakyWorld \<lparr>Records = [] @ obj ''certs/abc.json'' # [obj ''certs/abc.json'']\<rparr> =
     returned (forRecords demoLibs flakyWorld ''https://hooks.example/T0''
       ([] @ [GetObject (bucketName (obj ''certs/abc.json'')) ''certs/abc.json'',
              PostWebhook ''https://hooks.example/T0'' (messageText ''certs/abc.json'' abcCert abcCertText),
              Log LevelError ''slack_webhook_err'' [(''err'', ''timeout'')]])
       [obj ''certs/abc.json'']) \<and>
   fst (Handler demoLibs flakyWorld \<lparr>Records = [] @ obj ''certs/abc.json'' # [obj ''certs/abc.json'']\<rparr>)
     \<noteq> Some (ErrPostWebhook ''timeout'') \<and>
   (\<exists>later.
      snd (Handler demoLibs flakyWorld
             \<lparr>Records = [] @ obj ''certs/abc.json'' # [obj ''certs/abc.json'']\<rparr>) =
        [] @ [GetObject (bucketName (obj ''certs/abc.json'')) ''certs/abc.json'',
              PostWebhook ''https://hooks.example/T0'' (messageText ''certs/abc.json'' abcCert abcCertText),
              Log LevelError ''slack_webhook_err'' [(''err'', ''timeout'')]] @
        GetObject (bucketName (obj ''certs/abc.json'')) ''certs/abc.json'' # later) \<and>
   Handler demoLibs flakyWorld \<lparr>Records = [] @ obj ''certs/abc.json'' # []\<rparr> =
     (None, [] @ [GetObject (bucketName (obj ''certs/abc.json'')) ''certs/abc.json'',
              PostWebhook ''https://hooks.example/T0'' (messageText ''certs/abc.json'' abcCert abcCertText),
              Log LevelError ''slack_webhook_err'' [(''err'', ''timeout'')]]) \<and>
   (\<exists>later.
      snd (Handler demoLibs flakyWorld
             \<lparr>Records = [] @ obj ''certs/abc.json'' # [obj ''other/abc.json'']\<rparr>) =
        [] @ [GetObject (bucketName (obj ''certs/abc.json'')) ''certs/abc.json'',
              PostWebhook ''https://hooks.example/T0'' (messageText ''certs/abc.json'' abcCert abcCertText),
              Log LevelError ''slack_webhook_err'' [(''err'', ''timeout'')]] @
        Log LevelInfo ''skipping_file_outside_prefix''
          [(''key'', objectKey (obj ''other/abc.json'')), (''prefix'', prefix')] # later)"
proof -
  have reach: "forRecords demoLibs flakyWorld ''https://hooks.example/T0'' [] [] = (Continue, [])"
    by simp
  have key: "HasPrefix (objectKey (obj ''certs/abc.json'')) prefix'"
    "PathUnescape (objectKey (obj ''certs/abc.json'')) = Inr ''certs/abc.json''"
    by (simp_all add: obj_def demo_keys)
  have other: "\<not> HasPrefix (objectKey (obj ''other/abc.json'')) prefix'"
    by (simp add: obj_def demo_keys)
  have fetch: "getObject flakyWorld [] (bucketName (obj ''certs/abc.json'')) ''certs/abc.json'' = Inr ''leaf abc''"
    by (simp add: flakyWorld_def demoWorld_def)
  have fail: "postWebhook flakyWorld ([] @ [GetObject (bucketName (obj ''certs/abc.json'')) ''certs/abc.json''])
      ''https://hooks.example/T0'' (messageText ''certs/abc.json'' abcCert abcCertText) = Some ''timeout''"
    by (simp add: flakyWorld_def)
  note run = delivery_failure_not_fatal [OF flaky_start reach key fetch demo_abc fail]
  note two = run [of "[obj ''certs/abc.json'']" "''timeout''"]
  note one = run [of "[]" "''timeout''"]
  note mixed = run [of "[obj ''other/abc.json'']" "''timeout''"]
  have continues: "Handler demoLibs flakyWorld
      \<lparr>Records = [] @ obj ''certs/abc.json'' # [obj ''certs/abc.json'']\<rparr> =
     returned (forRecords demoLibs flakyWorld ''https://hooks.example/T0''
       ([] @ [GetObject (bucketName (obj ''certs/abc.json'')) ''certs/abc.json'',
              PostWebhook ''https://hooks.example/T0'' (messageText ''certs/abc.json'' abcCert abcCertText),
              Log LevelError ''slack_webhook_err'' [(''err'', ''timeout'')]])
       [obj ''certs/abc.json''])"
    by (rule two [THEN conjunct1])
  have swallowed: "fst (Handler demoLibs flakyWorld
      \<lparr>Records = [] @ obj ''certs/abc.json'' # [obj ''certs/abc.json'']\<rparr>)
     \<noteq> Some (ErrPostWebhook ''timeout'')"
    by (rule two [THEN conjunct2, THEN conjunct1])
  have fetched: "\<exists>later.
      snd (Handler demoLibs flakyWorld
             \<lparr>Records = [] @ obj ''certs/abc.json'' # [obj ''certs/abc.json'']\<rparr>) =
        [] @ [GetObject (bucketName (obj ''certs/abc.json'')) ''certs/abc.json'',
              PostWebhook ''https://hooks.example/T0'' (messageText ''certs/abc.json'' abcCert abcCertText),
              Log LevelError ''slack_webhook_err'' [(''err'', ''timeout'')]] @
        GetObject (bucketName (obj ''certs/abc.json'')) ''certs/abc.json'' # later"
    by (rule two [THEN conjunct2, THEN conjunct2, THEN conjunct2, THEN conjunct2, THEN conjunct1,
          rule_format, of "obj ''certs/abc.json''" "[]"])
       (simp add: key)
  have last: "Handler demoLibs flakyWorld \<lparr>Records = [] @ obj ''certs/abc.json'' # []\<rparr> =
     (None, [] @ [GetObject (bucketName (obj ''certs/abc.json'')) ''certs/abc.json'',
              PostWebhook ''https://hooks.example/T0'' (messageText ''certs/abc.json'' abcCert abcCertText),
              Log LevelError ''slack_webhook_err'' [(''err'', ''timeout'')]])"
    by (rule one [THEN conjunct2, THEN conjunct2, THEN conjunct2, THEN conjunct1, rule_format])
       (rule refl)
  have skipped: "\<exists>later.
      snd (Handler demoLibs flakyWorld
             \<lparr>Records = [] @ obj ''certs/abc.json'' # [obj ''other/abc.json'']\<rparr>) =
        [] @ [GetObject (bucketName (obj ''certs/abc.json'')) ''certs/abc.json'',
              PostWebhook ''https://hooks.example/T0'' (messageText ''certs/abc.json'' abcCert abcCertText),
              Log LevelError ''slack_webhook_err'' [(''err'', ''timeout'')]] @
        Log LevelInfo ''skipping_file_outside_prefix''
          [(''key'', objectKey (obj ''other/abc.json'')), (''prefix'', prefix')] # later"
    by (rule mixed [THEN conjunct2, THEN conjunct2, THEN conjunct2, THEN conjunct2, THEN conjunct2,
          rule_format, of "obj ''other/abc.json''" "[]"])
       (simp add: other)
  from continues swallowed fetched last skipped show ?thesis
    by (intro conjI)
qed

text \<open>
  Claim C7. When the webhook address cannot be resolved, the handler logs the failure
  and runs the same loop over all the records, with whatever address the parameter store
  returned beside its error. The failure is never the error of the handler, and every
  record that the loop gets to and that yields a certificate and its text is still
  handed to the transport.
\<close>

theorem resolution_failure_not_fatal:
  assumes "loadDefaultConfig w = None"
    and "kvGet w ''webhook_url'' = (url, Some m)"
  shows "Handler L w evt =
           returned (forRecords L w url [Log LevelError ''get_webhook_url_err'' [(''err'', m)]]
                       (Records evt)) \<and>
         (\<forall>m'. fst (Handler L w evt) \<noteq> Some (ErrKvGet m')) \<and>
         (\<forall>pre rec rest tr key body leaf entry c cert txt.
            Records evt = pre @ rec # rest \<and>
            forRecords L w url [Log LevelError ''get_webhook_url_err'' [(''err'', m)]] pre
              = (Continue, tr) \<and>
            HasPrefix (objectKey rec) prefix' \<and>
            PathUnescape (objectKey rec) = Inr key \<and>
            getObject w tr (bucketName rec) key = Inr body \<and>
            jsonDecode L body = Inr leaf \<and>
            logEntryFromLeaf L 0 leaf = Inr entry \<and>
            X509Cert entry = Some c \<and>
            parseCertificate L (Raw c) = Inr cert \<and>
            certificateText L cert = Inr txt
            \<longrightarrow> (url, messageText key cert txt) \<in> set (posts (snd (Handler L w evt))))"
proof (intro conjI allI impI)
  have start: "getWebhookURL w = (url, [Log LevelError ''get_webhook_url_err'' [(''err'', m)]])"
    using assms(2) by (simp add: getWebhookURL_def)
  show "Handler L w evt =
           returned (forRecords L w url [Log LevelError ''get_webhook_url_err'' [(''err'', m)]]
                       (Records evt))"
    using assms(1) start by (simp add: Handler_def)
  show "fst (Handler L w evt) \<noteq> Some (ErrKvGet m')" for m'
    using Handler_origin [of L w evt] by blast
  fix pre rec rest tr key body leaf entry c cert info
  assume h: "Records evt = pre @ rec # rest \<and>
            forRecords L w url [Log LevelError ''get_webhook_url_err'' [(''err'', m)]] pre
              = (Continue, tr) \<and>
            HasPrefix (objectKey rec) prefix' \<and>
            PathUnescape (objectKey rec) = Inr key \<and>
            getObject w tr (bucketName rec) key = Inr body \<and>
            jsonDecode L body = Inr leaf \<and>
            logEntryFromLeaf L 0 leaf = Inr entry \<and>
            X509Cert entry = Some c \<and>
            parseCertificate L (Raw c) = Inr cert \<and>
            certificateText L cert = Inr info"
  have evt: "evt = \<lparr>Records = pre @ rec # rest\<rparr>" using h by (cases evt) simp
  obtain later where "posts (snd (Handler L w evt)) = posts tr @ (url, messageText key cert info) # later"
    using Handler_delivers [OF assms(1) start, of L pre tr rec key body leaf entry c cert info rest] h evt
    by blast
  then show "(url, messageText key cert info) \<in> set (posts (snd (Handler L w evt)))" by simp
qed


theorem resolution_failure_not_fatal_witness:
  "Handler demoLibs unresolvedWorld \<lparr>Records = [obj ''other/abc.json'', obj ''certs/abc.json'']\<rparr> =
     returned (forRecords demoLibs unresolvedWorld []
       [Log LevelError ''get_webhook_url_err'' [(''err'', ''ParameterNotFound'')]]
       [obj ''other/abc.json'', obj ''certs/abc.json'']) \<and>
   fst (Handler demoLibs unresolvedWorld \<lparr>Records = [obj ''other/abc.json'', obj ''certs/abc.json'']\<rparr>)
     \<noteq> Some (ErrKvGet ''ParameterNotFound'') \<and>
   ([], messageText ''certs/abc.json'' abcCert abcCertText) \<in>
     set (posts (snd (Handler demoLibs unresolvedWorld
       \<lparr>Records = [obj ''other/abc.json'', obj ''certs/abc.json'']\<rparr>)))"
proof -
  let ?evt = "\<lparr>Records = [obj ''other/abc.json'', obj ''certs/abc.json'']\<rparr>"
  let ?init = "[Log LevelError ''get_webhook_url_err'' [(''err'', ''ParameterNotFound'')]]"
  let ?tr = "?init @ [Log LevelInfo ''skipping_file_outside_prefix''
                      [(''key'', ''other/abc.json''), (''prefix'', prefix')]]"
  note main = resolution_failure_not_fatal [OF unresolved_start, of demoLibs ?evt]
  have reach: "forRecords demoLibs unresolvedWorld [] ?init [obj ''other/abc.json''] = (Continue, ?tr)"
    by (simp add: processRecord_def obj_def demo_keys)
  have split: "Records ?evt = [obj ''other/abc.json''] @ obj ''certs/abc.json'' # []"
    by simp
  have key: "HasPrefix (objectKey (obj ''certs/abc.json'')) prefix'"
    "PathUnescape (objectKey (obj ''certs/abc.json'')) = Inr ''certs/abc.json''"
    by (simp_all add: obj_def demo_keys)
  have fetch: "getObject unresolvedWorld ?tr (bucketName (obj ''certs/abc.json'')) ''certs/abc.json''
      = Inr ''leaf abc''"
    by (simp add: unresolvedWorld_def demoWorld_def)
  have "([], messageText ''certs/abc.json'' abcCert abcCertText) \<in> set (posts (snd (Handler demoLibs unresolvedWorld ?evt)))"
    using main split reach key fetch demo_abc by blast
  moreover have "fst (Handler demoLibs unresolvedWorld ?evt) \<noteq> Some (ErrKvGet ''ParameterNotFound'')"
    using main by blast
  moreover have "Handler demoLibs unresolvedWorld ?evt =
     returned (forRecords demoLibs unresolvedWorld [] ?init (Records ?evt))"
    using main by (rule conjunct1)
  ultimately show ?thesis by simp
qed



subsection \<open>The order of the steps for one record\<close>

text \<open>
  Claim C3, as stated: the key is unescaped first and the prefix is looked for in the
  unescaped key. The handler does it the other way round. The key \<open>certs%2Fabc.json\<close>
  unescapes to \<open>certs/abc.json\<close>, which is under the prefix, and is skipped all the
  same; the key \<open>%zz\<close> cannot be unescaped and is skipped without an error.
\<close>

theorem unescaped_key_under_prefix_skipped:
  "PathUnescape ''certs%2Fabc.json'' = Inr ''certs/abc.json'' \<and>
   HasPrefix ''certs/abc.json'' prefix' \<and>
   Handler demoLibs demoWorld \<lparr>Records = [obj ''certs%2Fabc.json'']\<rparr> =
     (None, [Log LevelInfo ''skipping_file_outside_prefix''
               [(''key'', ''certs%2Fabc.json''), (''prefix'', ''certs/'')]]) \<and>
   PathUnescape ''%zz'' = Inl ''%zz'' \<and>
   Handler demoLibs demoWorld \<lparr>Records = [obj ''%zz'']\<rparr> =
     (None, [Log LevelInfo ''skipping_file_outside_prefix''
               [(''key'', ''%zz''), (''prefix'', ''certs/'')]])"
  by (simp add: Handler_def demo_start processRecord_def obj_def HasPrefix_def prefix'_def
        demo_unescape del: PathUnescape.simps)

text \<open>
  Claim C3, amended. The prefix is looked for in the key as it arrives: without it the
  record is skipped with a log line and no error. Only then is the key unescaped, and a
  failure of that is returned with nothing done. Only then does loading start: the first
  thing done is the fetch of the unescaped key.
\<close>

theorem prefix_then_unescape_then_load:
  "(\<not> HasPrefix (objectKey rec) prefix' \<longrightarrow>
      processRecord L w url tr rec =
        (Continue, tr @ [Log LevelInfo ''skipping_file_outside_prefix''
                           [(''key'', objectKey rec), (''prefix'', prefix')]])) \<and>
   (\<forall>m. HasPrefix (objectKey rec) prefix' \<and> PathUnescape (objectKey rec) = Inl m \<longrightarrow>
      processRecord L w url tr rec = (Return (Some (ErrPathUnescape m)), tr)) \<and>
   (\<forall>key. HasPrefix (objectKey rec) prefix' \<and> PathUnescape (objectKey rec) = Inr key \<longrightarrow>
      (\<exists>c after. processRecord L w url tr rec = (c, tr @ GetObject (bucketName rec) key # after)))"
  by (simp add: processRecord_def Let_def split: sum.split option.split)

theorem prefix_then_unescape_then_load_witness:
  "processRecord demoLibs demoWorld ''https://hooks.example/T0'' [] (obj ''certs%2Fabc.json'') =
     (Continue, [] @ [Log LevelInfo ''skipping_file_outside_prefix''
        [(''key'', objectKey (obj ''certs%2Fabc.json'')), (''prefix'', prefix')]]) \<and>
   processRecord demoLibs demoWorld ''https://hooks.example/T0'' [] (obj ''certs/%zz'') =
     (Return (Some (ErrPathUnescape ''%zz'')), []) \<and>
   (\<exists>c after. processRecord demoLibs demoWorld ''https://hooks.example/T0'' [] (obj ''certs/a%2Bb.json'') =
     (c, [] @ GetObject (bucketName (obj ''certs/a%2Bb.json'')) ''certs/a+b.json'' # after))"
proof -
  have k1: "\<not> HasPrefix (objectKey (obj ''certs%2Fabc.json'')) prefix'"
    by (simp add: obj_def HasPrefix_def prefix'_def)
  have k2: "HasPrefix (objectKey (obj ''certs/%zz'')) prefix' \<and>
            PathUnescape (objectKey (obj ''certs/%zz'')) = Inl ''%zz''"
    by (simp add: obj_def HasPrefix_def prefix'_def demo_unescape del: PathUnescape.simps)
  have k3: "HasPrefix (objectKey (obj ''certs/a%2Bb.json'')) prefix' \<and>
            PathUnescape (objectKey (obj ''certs/a%2Bb.json'')) = Inr ''certs/a+b.json''"
    by (simp add: obj_def HasPrefix_def prefix'_def demo_unescape del: PathUnescape.simps)
  note order = prefix_then_unescape_then_load [of _ demoLibs demoWorld "''https://hooks.example/T0''" "[]"]
  show ?thesis
    using k1 k2 k3 order [of "obj ''certs%2Fabc.json''"] order [of "obj ''certs/%zz''"]
      order [of "obj ''certs/a%2Bb.json''"]
    by blast
qed


subsection \<open>The text of a notification\<close>

text \<open>
  Claim C4. When the handler has got to a record whose object is a leaf entry with an
  X.509 certificate that parses and renders, it sends a notification whose text is the
  fixed template around: the unescaped key; the DNS names of the certificate in their
  order, joined by a comma and a space (nothing at all when there is none); the two ends
  of the validity period as \<open>Format(time.RFC3339)\<close> gives them; and the text of the
  certificate. For a calendar time with a four-digit year what \<open>Format\<close> gives is an
  RFC 3339 timestamp, in shape and in the ranges of its fields, and it is the timestamp
  of that time: read back, its digits give
  the year, month, day, hour, minute and second of the certificate's field, and its
  offset gives the field's offset in whole minutes (for the UTC times of a parsed
  certificate, the field itself).
\<close>

theorem notification_fields:
  assumes "loadDefaultConfig w = None"
    and "getWebhookURL w = (url, tr0)"
    and "forRecords L w url tr0 pre = (Continue, tr)"
    and "HasPrefix (objectKey rec) prefix'"
    and "PathUnescape (objectKey rec) = Inr key"
    and "getObject w tr (bucketName rec) key = Inr body"
    and "jsonDecode L body = Inr leaf"
    and "logEntryFromLeaf L 0 leaf = Inr entry"
    and "X509Cert entry = Some c"
    and "parseCertificate L (Raw c) = Inr cert"
    and "certificateText L cert = Inr txt"
  shows "(\<exists>later. posts (snd (Handler L w \<lparr>Records = pre @ rec # rest\<rparr>)) =
           posts tr @
           (url,
            ''*New Certificate Detected*'' @ [CHR 0x0A, CHR 0x0A] @
            ''*Key:* '' @ key @ [CHR 0x0A] @
            ''*DNS Names:* '' @ commaSpaceJoin (DNSNames cert) @ [CHR 0x0A] @
            ''*Not Before:* '' @ FormatRFC3339 (NotBefore cert) @ [CHR 0x0A] @
            ''*Not After:* '' @ FormatRFC3339 (NotAfter cert) @ [CHR 0x0A, CHR 0x0A] @
            ''*Certificate Details:*'' @ [CHR 0x0A] @ ''```'' @ txt @ ''```'') # later) \<and>
         (DNSNames cert = [] \<longrightarrow> commaSpaceJoin (DNSNames cert) = []) \<and>
         (civil (NotBefore cert) \<longrightarrow>
            isRFC3339 (FormatRFC3339 (NotBefore cert)) \<and>
            validRFC3339 (FormatRFC3339 (NotBefore cert)) \<and>
            readRFC3339 (FormatRFC3339 (NotBefore cert)) =
              Some ((NotBefore cert)\<lparr>tOffset := (tOffset (NotBefore cert) sdiv 60) * 60\<rparr>)) \<and>
         (civil (NotAfter cert) \<longrightarrow>
            isRFC3339 (FormatRFC3339 (NotAfter cert)) \<and>
            validRFC3339 (FormatRFC3339 (NotAfter cert)) \<and>
            readRFC3339 (FormatRFC3339 (NotAfter cert)) =
              Some ((NotAfter cert)\<lparr>tOffset := (tOffset (NotAfter cert) sdiv 60) * 60\<rparr>))"
proof -
  obtain later where "posts (snd (Handler L w \<lparr>Records = pre @ rec # rest\<rparr>)) =
      posts tr @ (url, messageText key cert txt) # later"
    using Handler_delivers [OF assms] by blast
  then have "\<exists>later. posts (snd (Handler L w \<lparr>Records = pre @ rec # rest\<rparr>)) =
           posts tr @
           (url,
            ''*New Certificate Detected*'' @ [CHR 0x0A, CHR 0x0A] @
            ''*Key:* '' @ key @ [CHR 0x0A] @
            ''*DNS Names:* '' @ commaSpaceJoin (DNSNames cert) @ [CHR 0x0A] @
            ''*Not Before:* '' @ FormatRFC3339 (NotBefore cert) @ [CHR 0x0A] @
            ''*Not After:* '' @ FormatRFC3339 (NotAfter cert) @ [CHR 0x0A, CHR 0x0A] @
            ''*Certificate Details:*'' @ [CHR 0x0A] @ ''```'' @ txt @ ''```'') # later"
    unfolding messageText_def Let_def Join_commaSpaceJoin by (rule exI)
  then show ?thesis
    using FormatRFC3339_shape FormatRFC3339_valid FormatRFC3339_read by simp
qed

theorem notification_fields_witness:
  "(\<exists>later. posts (snd (Handler demoLibs demoWorld
       \<lparr>Records = [] @ obj ''certs/abc.json'' # [obj ''certs/abc.json'']\<rparr>)) =
           posts [] @
           (''https://hooks.example/T0'',
            ''*New Certificate Detected*'' @ [CHR 0x0A, CHR 0x0A] @
            ''*Key:* '' @ ''certs/abc.json'' @ [CHR 0x0A] @
            ''*DNS Names:* '' @ commaSpaceJoin (DNSNames abcCert) @ [CHR 0x0A] @
            ''*Not Before:* '' @ FormatRFC3339 (NotBefore abcCert) @ [CHR 0x0A] @
            ''*Not After:* '' @ FormatRFC3339 (NotAfter abcCert) @ [CHR 0x0A, CHR 0x0A] @
            ''*Certificate Details:*'' @ [CHR 0x0A] @ ''```'' @ abcCertText @ ''```'') # later) \<and>
   DNSNames abcCert \<noteq> [] \<and>
   civil (NotBefore abcCert) \<and> isRFC3339 (FormatRFC3339 (NotBefore abcCert)) \<and>
   validRFC3339 (FormatRFC3339 (NotBefore abcCert)) \<and>
   readRFC3339 (FormatRFC3339 (NotBefore abcCert)) = Some (NotBefore abcCert) \<and>
   civil (NotAfter abcCert) \<and> isRFC3339 (FormatRFC3339 (NotAfter abcCert)) \<and>
   validRFC3339 (FormatRFC3339 (NotAfter abcCert)) \<and>
   readRFC3339 (FormatRFC3339 (NotAfter abcCert)) = Some (NotAfter abcCert)"
proof -
  have reach: "forRecords demoLibs demoWorld ''https://hooks.example/T0'' [] [] = (Continue, [])"
    by simp
  have key: "HasPrefix (objectKey (obj ''certs/abc.json'')) prefix'"
    "PathUnescape (objectKey (obj ''certs/abc.json'')) = Inr ''certs/abc.json''"
    by (simp_all add: obj_def demo_keys)
  have fetch: "getObject demoWorld [] (bucketName (obj ''certs/abc.json'')) ''certs/abc.json'' = Inr ''leaf abc''"
    by (simp add: demoWorld_def)
  have times: "civil (NotBefore abcCert)" "civil (NotAfter abcCert)"
    by (simp_all add: abcCert_def civil_utc)
  have whole: "(NotBefore abcCert)\<lparr>tOffset := (tOffset (NotBefore abcCert) sdiv 60) * 60\<rparr>
      = NotBefore abcCert"
    "(NotAfter abcCert)\<lparr>tOffset := (tOffset (NotAfter abcCert) sdiv 60) * 60\<rparr> = NotAfter abcCert"
    by (simp_all add: abcCert_def utc_def)
  have names: "DNSNames abcCert \<noteq> []"
    by (simp add: abcCert_def)
  note fields = notification_fields [OF demo_start reach key fetch demo_abc,
      of "[obj ''certs/abc.json'']"]
  note sent = fields [THEN conjunct1]
  note before = fields [THEN conjunct2, THEN conjunct2, THEN conjunct1, rule_format, OF times(1),
      unfolded whole]
  note after = fields [THEN conjunct2, THEN conjunct2, THEN conjunct2, rule_format, OF times(2),
      unfolded whole]
  from sent names
    times(1) before [THEN conjunct1] before [THEN conjunct2, THEN conjunct1]
    before [THEN conjunct2, THEN conjunct2]
    times(2) after [THEN conjunct1] after [THEN conjunct2, THEN conjunct1]
    after [THEN conjunct2, THEN conjunct2]
  show ?thesis
    by (intro conjI)
qed

text \<open>
  Claim C8, as stated: the notification contains the literal text
  \<open>DNS Names: a.example.com, b.example.com\<close>. It does not: the template sets the labels
  in asterisks, so a \<open>*\<close> stands between the colon and the space.
\<close>

theorem scenario_literal_substrings_absent:
  "DNSNames abcCert = [''a.example.com'', ''b.example.com''] \<and>
   NotBefore abcCert = utc 2024 1 1 0 0 0 \<and>
   NotAfter abcCert = utc 2025 1 1 0 0 0 \<and>
   posts (snd (Handler demoLibs demoWorld \<lparr>Records = [obj ''certs/abc.json'']\<rparr>)) =
     [(''https://hooks.example/T0'', messageText ''certs/abc.json'' abcCert abcCertText)] \<and>
   \<not> sublist ''DNS Names: a.example.com, b.example.com''
         (messageText ''certs/abc.json'' abcCert abcCertText) \<and>
   \<not> sublist ''Not Before: 2024-01-01T00:00:00Z''
         (messageText ''certs/abc.json'' abcCert abcCertText) \<and>
   \<not> sublist ''Not After: 2025-01-01T00:00:00Z''
         (messageText ''certs/abc.json'' abcCert abcCertText)"
proof -
  have "posts (snd (Handler demoLibs demoWorld \<lparr>Records = [obj ''certs/abc.json'']\<rparr>)) =
     [(''https://hooks.example/T0'', messageText ''certs/abc.json'' abcCert abcCertText)]"
    by (simp add: Handler_def demo_start demo_abc_step)
  moreover have "\<not> sublist ''DNS Names: a.example.com, b.example.com''
         (messageText ''certs/abc.json'' abcCert abcCertText)"
    unfolding demo_text by code_simp
  moreover have "\<not> sublist ''Not Before: 2024-01-01T00:00:00Z''
         (messageText ''certs/abc.json'' abcCert abcCertText)"
    unfolding demo_text by code_simp
  moreover have "\<not> sublist ''Not After: 2025-01-01T00:00:00Z''
         (messageText ''certs/abc.json'' abcCert abcCertText)"
    unfolding demo_text by code_simp
  ultimately show ?thesis by (simp add: abcCert_def)
qed


text \<open>
  Claim C8, amended. For the key \<open>certs/abc.json\<close>, fetched and decoded to a certificate
  with the two DNS names and the validity period of the scenario, the handler sends
  exactly one notification, and its text contains the three fields with their labels as
  the template writes them: \<open>*DNS Names:* \<dots>\<close>, \<open>*Not Before:* \<dots>\<close>,
  \<open>*Not After:* \<dots>\<close>.
\<close>

theorem scenario_notification:
  assumes "loadDefaultConfig w = None"
    and "getWebhookURL w = (url, tr0)"
    and "getObject w tr0 bucket ''certs/abc.json'' = Inr body"
    and "jsonDecode L body = Inr leaf"
    and "logEntryFromLeaf L 0 leaf = Inr entry"
    and "X509Cert entry = Some c"
    and "parseCertificate L (Raw c) = Inr cert"
    and "certificateText L cert = Inr txt"
    and "DNSNames cert = [''a.example.com'', ''b.example.com'']"
    and "NotBefore cert = utc 2024 1 1 0 0 0"
    and "NotAfter cert = utc 2025 1 1 0 0 0"
  shows "\<exists>text.
           posts (snd (Handler L w
             \<lparr>Records = [\<lparr>bucketName = bucket, objectKey = ''certs/abc.json''\<rparr>]\<rparr>)) = [(url, text)] \<and>
           sublist ''*DNS Names:* a.example.com, b.example.com'' text \<and>
           sublist ''*Not Before:* 2024-01-01T00:00:00Z'' text \<and>
           sublist ''*Not After:* 2025-01-01T00:00:00Z'' text"
proof -
  let ?rec = "\<lparr>bucketName = bucket, objectKey = ''certs/abc.json''\<rparr>"
  let ?text = "messageText ''certs/abc.json'' cert txt"
  have key: "HasPrefix (objectKey ?rec) prefix'" "PathUnescape (objectKey ?rec) = Inr ''certs/abc.json''"
    by (simp_all add: demo_keys)
  have fetch: "getObject w tr0 (bucketName ?rec) ''certs/abc.json'' = Inr body"
    using assms(3) by simp
  obtain logs where step: "processRecord L w url tr0 ?rec =
      (Continue, tr0 @ [GetObject bucket ''certs/abc.json'', PostWebhook url ?text] @ logs)"
    and logs: "posts logs = []"
    using processRecord_delivered [OF key fetch assms(4-8), of url]
    by (cases "postWebhook w (tr0 @ [GetObject (bucketName ?rec) ''certs/abc.json'']) url ?text") auto
  have "Handler L w \<lparr>Records = [?rec]\<rparr> =
          (None, tr0 @ [GetObject bucket ''certs/abc.json'', PostWebhook url ?text] @ logs)"
    using assms(1,2) step by (simp add: Handler_def)
  then have one: "posts (snd (Handler L w \<lparr>Records = [?rec]\<rparr>)) = [(url, ?text)]"
    using logs getWebhookURL_posts [OF assms(2)] by (simp add: posts_append)
  have "?text =
     (''*New Certificate Detected*'' @ [CHR 0x0A, CHR 0x0A] @ ''*Key:* certs/abc.json'' @ [CHR 0x0A]) @
     ''*DNS Names:* a.example.com, b.example.com'' @
     ([CHR 0x0A] @ ''*Not Before:* 2024-01-01T00:00:00Z'' @ [CHR 0x0A] @
      ''*Not After:* 2025-01-01T00:00:00Z'' @ [CHR 0x0A, CHR 0x0A] @
      ''*Certificate Details:*'' @ [CHR 0x0A] @ ''```'' @ txt @ ''```'')"
    by (simp add: messageText_def assms(9-11) format_2024)
  then have names: "sublist ''*DNS Names:* a.example.com, b.example.com'' ?text"
    unfolding sublist_def by blast
  have "?text =
     (''*New Certificate Detected*'' @ [CHR 0x0A, CHR 0x0A] @ ''*Key:* certs/abc.json'' @ [CHR 0x0A] @
      ''*DNS Names:* a.example.com, b.example.com'' @ [CHR 0x0A]) @
     ''*Not Before:* 2024-01-01T00:00:00Z'' @
     ([CHR 0x0A] @ ''*Not After:* 2025-01-01T00:00:00Z'' @ [CHR 0x0A, CHR 0x0A] @
      ''*Certificate Details:*'' @ [CHR 0x0A] @ ''```'' @ txt @ ''```'')"
    by (simp add: messageText_def assms(9-11) format_2024)
  then have before: "sublist ''*Not Before:* 2024-01-01T00:00:00Z'' ?text"
    unfolding sublist_def by blast
  have "?text =
     (''*New Certificate Detected*'' @ [CHR 0x0A, CHR 0x0A] @ ''*Key:* certs/abc.json'' @ [CHR 0x0A] @
      ''*DNS Names:* a.example.com, b.example.com'' @ [CHR 0x0A] @
      ''*Not Before:* 2024-01-01T00:00:00Z'' @ [CHR 0x0A]) @
     ''*Not After:* 2025-01-01T00:00:00Z'' @
     ([CHR 0x0A, CHR 0x0A] @ ''*Certificate Details:*'' @ [CHR 0x0A] @ ''```'' @ txt @ ''```'')"
    by (simp add: messageText_def assms(9-11) format_2024)
  then have after: "sublist ''*Not After:* 2025-01-01T00:00:00Z'' ?text"
    unfolding sublist_def by blast
  show ?thesis using one names before after by blast
qed

theorem scenario_notification_witness:
  "\<exists>text.
     posts (snd (Handler demoLibs demoWorld
       \<lparr>Records = [\<lparr>bucketName = ''ct-logs'', objectKey = ''certs/abc.json''\<rparr>]\<rparr>))
       = [(''https://hooks.example/T0'', text)] \<and>
     sublist ''*DNS Names:* a.example.com, b.example.com'' text \<and>
     sublist ''*Not Before:* 2024-01-01T00:00:00Z'' text \<and>
     sublist ''*Not After:* 2025-01-01T00:00:00Z'' text"
proof -
  have fetch: "getObject demoWorld [] ''ct-logs'' ''certs/abc.json'' = Inr ''leaf abc''"
    by (simp add: demoWorld_def)
  have fields: "DNSNames abcCert = [''a.example.com'', ''b.example.com'']"
    "NotBefore abcCert = utc 2024 1 1 0 0 0" "NotAfter abcCert = utc 2025 1 1 0 0 0"
    by (simp_all add: abcCert_def)
  show ?thesis
    by (rule scenario_notification [OF demo_start fetch demo_abc fields])
qed

end
